theory Spec2Isabelle
  imports Main "HOL-Library.Word"
begin

section \<open>The position ledger of PerpetualPositionManager.sol\<close>

text \<open>
  The contract keeps one \<open>PositionData\<close> per sponsor address in a Solidity mapping (a total
  function: an absent key reads as the all-zero struct, \<open>delete\<close> writes the all-zero struct)
  and two aggregate counters. Every \<open>uint256\<close> is a natural number; the bound \<open>2^256 - 1\<close> is
  written out wherever the checked arithmetic of the source compares against it. A revert is the
  value \<open>Inl e\<close>; since a revert undoes every write, a failed call carries no state. The external
  token calls an operation makes are returned as a list, in the order of the source.
  \<open>nonReentrant\<close> and the events have no counterpart: calls are run one after the other, and no
  property below reads the log.
\<close>

subsection \<open>Data\<close>

type_synonym address = "160 word"

datatype error =
    PositionHasNoCollateral
  | PendingWithdrawal
  | PendingTransfer
  | RequestExpiresPostExpiry
  | SponsorAlreadyHasPosition
  | InvalidTransferRequest
  | InvalidCollateralAmount
  | InvalidWithdrawRequest
  | NoPendingWithdrawal
  | NoPendingTransfer
  | InsufficientCollateral
  | BelowMinimumSponsorPosition
  | InvalidTokenAmount
  | CRBelowGCR
  | Overflow
  | Underflow
  | DivideByZero

record PositionData =
  tokensOutstanding :: nat
  withdrawalRequestPassTimestamp :: nat
  withdrawalRequestAmount :: nat
  rawCollateral :: nat
  transferPositionRequestPassTimestamp :: nat

record Ledger =
  positions :: "address \<Rightarrow> PositionData"
  totalTokensOutstanding :: nat
  rawTotalPositionCollateral :: nat
  cumulativeFeeMultiplier :: nat

text \<open>
  The values fixed at construction. \<open>expirationTimestamp\<close> is read by
  \<open>requestTransferPosition\<close> and declared nowhere in the file: it is a parameter here.
\<close>

record Config =
  withdrawalLiveness :: nat
  minSponsorTokens :: nat
  expirationTimestamp :: nat

datatype Effect =
    CollateralTransferFrom address nat
  | CollateralTransfer address nat
  | TokenMint address nat
  | TokenTransferFrom address nat
  | TokenBurn nat

definition UINT_MAX :: nat where
  "UINT_MAX = 115792089237316195423570985008687907853269984665640564039457584007913129639935"

definition FP_SCALING_FACTOR :: nat where
  "FP_SCALING_FACTOR = 1000000000000000000"

definition emptyPosition :: PositionData where
  "emptyPosition = \<lparr>tokensOutstanding = 0, withdrawalRequestPassTimestamp = 0,
     withdrawalRequestAmount = 0, rawCollateral = 0, transferPositionRequestPassTimestamp = 0\<rparr>"

definition emptyLedger :: Ledger where
  "emptyLedger = \<lparr>positions = (\<lambda>_. emptyPosition), totalTokensOutstanding = 0,
     rawTotalPositionCollateral = 0, cumulativeFeeMultiplier = FP_SCALING_FACTOR\<rparr>"

subsection \<open>Reverts\<close>

definition bindE :: "error + 'a \<Rightarrow> ('a \<Rightarrow> error + 'b) \<Rightarrow> error + 'b" where
  "bindE m f = (case m of Inl e \<Rightarrow> Inl e | Inr x \<Rightarrow> f x)"

definition require :: "bool \<Rightarrow> error \<Rightarrow> error + unit" where
  "require c e = (if c then Inr () else Inl e)"

text \<open>OpenZeppelin's \<open>SafeMath.add\<close> on \<open>uint256\<close>, used on timestamps.\<close>

definition SafeMath_add :: "nat \<Rightarrow> nat \<Rightarrow> error + nat" where
  "SafeMath_add a b = (if a + b \<le> UINT_MAX then Inr (a + b) else Inl Overflow)"

subsection \<open>Fixed-point arithmetic\<close>

text \<open>
  Modelled from the spec: the library \<open>FixedPoint.sol\<close> is imported by the contract and is not
  among the sources. Section 4.1 of the specification gives it: non-negative quantities as
  integers scaled by 18 decimal places, addition, subtraction failing on a negative result,
  multiplication and division truncating toward zero, division failing on a zero divisor, and
  explicit overflow checks at 256 bits.
\<close>

definition FixedPoint_add :: "nat \<Rightarrow> nat \<Rightarrow> error + nat" where
  "FixedPoint_add a b = (if a + b \<le> UINT_MAX then Inr (a + b) else Inl Overflow)"

definition FixedPoint_sub :: "nat \<Rightarrow> nat \<Rightarrow> error + nat" where
  "FixedPoint_sub a b = (if b \<le> a then Inr (a - b) else Inl Underflow)"

definition FixedPoint_mul :: "nat \<Rightarrow> nat \<Rightarrow> error + nat" where
  "FixedPoint_mul a b =
     (if a * b \<le> UINT_MAX then Inr (a * b div FP_SCALING_FACTOR) else Inl Overflow)"

definition FixedPoint_div :: "nat \<Rightarrow> nat \<Rightarrow> error + nat" where
  "FixedPoint_div a b =
     (if a * FP_SCALING_FACTOR \<le> UINT_MAX
      then (if b = 0 then Inl DivideByZero else Inr (a * FP_SCALING_FACTOR div b))
      else Inl Overflow)"

subsection \<open>Fee-adjusted collateral\<close>

text \<open>
  Modelled from the spec: \<open>FeePayer.sol\<close>, the base contract holding
  \<open>cumulativeFeeMultiplier\<close>, \<open>_getFeeAdjustedCollateral\<close>, \<open>_addCollateral\<close>,
  \<open>_removeCollateral\<close> and the modifier \<open>fees()\<close>, is not among the sources. Section 4.2 of the
  specification gives the three functions: the fee-adjusted value is the raw value times the
  multiplier; adding converts the fee-adjusted amount into the equivalent raw increase and adds
  it to the raw counter; removing is the inverse and fails with \<open>InsufficientCollateral\<close> when
  the raw counter would become negative. What they return is the fee-adjusted change of the
  counter: section 4.3 has \<open>withdraw\<close> return "the actual fee-adjusted amount removed", and the
  comment on \<open>_decrementCollateralBalances\<close> in the source has it return "the amount that the
  global collateral is decreased by"; scenario 8 of section 8, where 45 and not 50 is withdrawn
  at multiplier 0.9, is that reading too. Section 4.2 also says that the multiplier never changes
  during a ledger operation, so \<open>fees()\<close> is the identity inside an operation and the charging
  of fees is the separate step \<open>chargeFees\<close>, which only lowers the multiplier.
\<close>

definition getFeeAdjustedCollateral :: "Ledger \<Rightarrow> nat \<Rightarrow> error + nat" where
  "getFeeAdjustedCollateral st raw = FixedPoint_mul raw (cumulativeFeeMultiplier st)"

definition convertToRawCollateral :: "Ledger \<Rightarrow> nat \<Rightarrow> error + nat" where
  "convertToRawCollateral st collateral = FixedPoint_div collateral (cumulativeFeeMultiplier st)"

definition removeCollateral :: "Ledger \<Rightarrow> nat \<Rightarrow> nat \<Rightarrow> error + (nat \<times> nat)" where
  "removeCollateral st raw collateralToRemove =
     bindE (getFeeAdjustedCollateral st raw) (\<lambda>initialBalance.
     bindE (convertToRawCollateral st collateralToRemove) (\<lambda>adjustedCollateral.
     bindE (if adjustedCollateral \<le> raw then Inr (raw - adjustedCollateral)
            else Inl InsufficientCollateral) (\<lambda>raw'.
     bindE (getFeeAdjustedCollateral st raw') (\<lambda>finalBalance.
     bindE (FixedPoint_sub initialBalance finalBalance) (\<lambda>removedCollateral.
     Inr (raw', removedCollateral))))))"

definition addCollateral :: "Ledger \<Rightarrow> nat \<Rightarrow> nat \<Rightarrow> error + (nat \<times> nat)" where
  "addCollateral st raw collateralToAdd =
     bindE (getFeeAdjustedCollateral st raw) (\<lambda>initialBalance.
     bindE (convertToRawCollateral st collateralToAdd) (\<lambda>adjustedCollateral.
     bindE (FixedPoint_add raw adjustedCollateral) (\<lambda>raw'.
     bindE (getFeeAdjustedCollateral st raw') (\<lambda>finalBalance.
     bindE (FixedPoint_sub finalBalance initialBalance) (\<lambda>addedCollateral.
     Inr (raw', addedCollateral))))))"

definition chargeFees :: "nat \<Rightarrow> Ledger \<Rightarrow> error + Ledger" where
  "chargeFees m st =
     bindE (require (m \<le> cumulativeFeeMultiplier st) Underflow) (\<lambda>_.
     Inr (st\<lparr>cumulativeFeeMultiplier := m\<rparr>))"

subsection \<open>Internal functions of the contract\<close>

definition setPosition :: "Ledger \<Rightarrow> address \<Rightarrow> PositionData \<Rightarrow> Ledger" where
  "setPosition st a p = st\<lparr>positions := (positions st)(a := p)\<rparr>"

text \<open>\<open>_getPositionData\<close> with its modifier \<open>onlyCollateralizedPosition\<close>.\<close>

definition getPositionData :: "Ledger \<Rightarrow> address \<Rightarrow> error + PositionData" where
  "getPositionData st sponsor =
     bindE (getFeeAdjustedCollateral st (rawCollateral (positions st sponsor))) (\<lambda>c.
     bindE (require (0 < c) PositionHasNoCollateral) (\<lambda>_.
     Inr (positions st sponsor)))"

text \<open>The modifier \<open>noPendingWithdrawal\<close>.\<close>

definition noPendingWithdrawal :: "Ledger \<Rightarrow> address \<Rightarrow> error + unit" where
  "noPendingWithdrawal st sponsor =
     bindE (getPositionData st sponsor) (\<lambda>p.
     require (withdrawalRequestPassTimestamp p = 0) PendingWithdrawal)"

definition getCollateralizationRatio :: "nat \<Rightarrow> nat \<Rightarrow> error + nat" where
  "getCollateralizationRatio collateral numTokens =
     (if \<not> 0 < numTokens then Inr 0 else FixedPoint_div collateral numTokens)"

definition checkCollateralization :: "Ledger \<Rightarrow> nat \<Rightarrow> nat \<Rightarrow> error + bool" where
  "checkCollateralization st collateral numTokens =
     bindE (getFeeAdjustedCollateral st (rawTotalPositionCollateral st)) (\<lambda>g.
     bindE (getCollateralizationRatio g (totalTokensOutstanding st)) (\<lambda>global.
     bindE (getCollateralizationRatio collateral numTokens) (\<lambda>thisChange.
     Inr (\<not> thisChange < global))))"

definition checkPositionCollateralization :: "Ledger \<Rightarrow> PositionData \<Rightarrow> error + bool" where
  "checkPositionCollateralization st positionData =
     bindE (getFeeAdjustedCollateral st (rawCollateral positionData)) (\<lambda>c.
     checkCollateralization st c (tokensOutstanding positionData))"

definition resetWithdrawalRequest :: "PositionData \<Rightarrow> PositionData" where
  "resetWithdrawalRequest p =
     p\<lparr>withdrawalRequestAmount := 0, withdrawalRequestPassTimestamp := 0\<rparr>"

text \<open>
  The three balance functions take the sponsor whose struct the storage pointer
  \<open>positionData\<close> of the source designates, and return the fee-adjusted change of the aggregate.
\<close>

definition incrementCollateralBalances :: "Ledger \<Rightarrow> address \<Rightarrow> nat \<Rightarrow> error + (Ledger \<times> nat)" where
  "incrementCollateralBalances st sponsor collateralAmount =
     bindE (addCollateral st (rawCollateral (positions st sponsor)) collateralAmount) (\<lambda>(raw', _).
     bindE (addCollateral st (rawTotalPositionCollateral st) collateralAmount) (\<lambda>(total', added).
     Inr ((setPosition st sponsor ((positions st sponsor)\<lparr>rawCollateral := raw'\<rparr>))
            \<lparr>rawTotalPositionCollateral := total'\<rparr>, added)))"

definition decrementCollateralBalances :: "Ledger \<Rightarrow> address \<Rightarrow> nat \<Rightarrow> error + (Ledger \<times> nat)" where
  "decrementCollateralBalances st sponsor collateralAmount =
     bindE (removeCollateral st (rawCollateral (positions st sponsor)) collateralAmount) (\<lambda>(raw', _).
     bindE (removeCollateral st (rawTotalPositionCollateral st) collateralAmount) (\<lambda>(total', removed).
     Inr ((setPosition st sponsor ((positions st sponsor)\<lparr>rawCollateral := raw'\<rparr>))
            \<lparr>rawTotalPositionCollateral := total'\<rparr>, removed)))"

definition decrementCollateralBalancesCheckGCR :: "Ledger \<Rightarrow> address \<Rightarrow> nat \<Rightarrow> error + (Ledger \<times> nat)" where
  "decrementCollateralBalancesCheckGCR st sponsor collateralAmount =
     bindE (removeCollateral st (rawCollateral (positions st sponsor)) collateralAmount) (\<lambda>(raw', _).
     let st1 = setPosition st sponsor ((positions st sponsor)\<lparr>rawCollateral := raw'\<rparr>) in
     bindE (checkPositionCollateralization st1 (positions st1 sponsor)) (\<lambda>ok.
     bindE (require ok CRBelowGCR) (\<lambda>_.
     bindE (removeCollateral st1 (rawTotalPositionCollateral st1) collateralAmount) (\<lambda>(total', removed).
     Inr (st1\<lparr>rawTotalPositionCollateral := total'\<rparr>, removed)))))"

definition deleteSponsorPosition :: "Ledger \<Rightarrow> address \<Rightarrow> error + (Ledger \<times> nat)" where
  "deleteSponsorPosition st sponsor =
     bindE (getPositionData st sponsor) (\<lambda>positionToLiquidate.
     bindE (getFeeAdjustedCollateral st (rawTotalPositionCollateral st)) (\<lambda>startingGlobalCollateral.
     bindE (FixedPoint_sub (rawTotalPositionCollateral st) (rawCollateral positionToLiquidate)) (\<lambda>total'.
     bindE (FixedPoint_sub (totalTokensOutstanding st) (tokensOutstanding positionToLiquidate)) (\<lambda>tokens'.
     let st1 = (setPosition st sponsor emptyPosition)
                 \<lparr>totalTokensOutstanding := tokens', rawTotalPositionCollateral := total'\<rparr> in
     bindE (getFeeAdjustedCollateral st1 (rawTotalPositionCollateral st1)) (\<lambda>endingGlobalCollateral.
     bindE (FixedPoint_sub startingGlobalCollateral endingGlobalCollateral) (\<lambda>removed.
     Inr (st1, removed)))))))"

text \<open>
  \<open>_reduceSponsorPosition\<close> has no caller in this contract (the liquidation code of a derived
  contract uses it); it is kept for the minimum-size check it makes.
\<close>

definition reduceSponsorPosition ::
  "Config \<Rightarrow> Ledger \<Rightarrow> address \<Rightarrow> nat \<Rightarrow> nat \<Rightarrow> nat \<Rightarrow> error + Ledger" where
  "reduceSponsorPosition cfg st sponsor tokensToRemove collateralToRemove withdrawalAmountToRemove =
     bindE (getPositionData st sponsor) (\<lambda>positionData.
     bindE (if tokensToRemove = tokensOutstanding positionData
            then bindE (getFeeAdjustedCollateral st (rawCollateral positionData)) (\<lambda>c.
                 Inr (c = collateralToRemove))
            else Inr False) (\<lambda>whole.
     if whole then bindE (deleteSponsorPosition st sponsor) (\<lambda>(st', _). Inr st')
     else
       bindE (decrementCollateralBalances st sponsor collateralToRemove) (\<lambda>(st1, _).
       bindE (FixedPoint_sub (tokensOutstanding (positions st1 sponsor)) tokensToRemove) (\<lambda>newTokenCount.
       bindE (require (minSponsorTokens cfg \<le> newTokenCount) BelowMinimumSponsorPosition) (\<lambda>_.
       bindE (FixedPoint_sub (withdrawalRequestAmount (positions st1 sponsor))
                withdrawalAmountToRemove) (\<lambda>amount'.
       bindE (FixedPoint_sub (totalTokensOutstanding st1) tokensToRemove) (\<lambda>tokens'.
       Inr ((setPosition st1 sponsor ((positions st1 sponsor)
               \<lparr>tokensOutstanding := newTokenCount, withdrawalRequestAmount := amount'\<rparr>))
             \<lparr>totalTokensOutstanding := tokens'\<rparr>))))))))"

subsection \<open>The public operations\<close>

text \<open>
  Each takes the configuration, the value of \<open>getCurrentTime()\<close> where it reads the clock, the
  caller \<open>msg.sender\<close>, its arguments and the ledger. The modifiers run in the order the source
  lists them, then the body.
\<close>

definition requestTransferPosition ::
  "Config \<Rightarrow> nat \<Rightarrow> address \<Rightarrow> Ledger \<Rightarrow> error + (Ledger \<times> Effect list)" where
  "requestTransferPosition cfg now sender st =
     bindE (getPositionData st sender) (\<lambda>positionData.
     bindE (require (transferPositionRequestPassTimestamp positionData = 0) PendingTransfer) (\<lambda>_.
     bindE (SafeMath_add now (withdrawalLiveness cfg)) (\<lambda>requestPassTime.
     bindE (require (requestPassTime < expirationTimestamp cfg) RequestExpiresPostExpiry) (\<lambda>_.
     Inr (setPosition st sender
            (positionData\<lparr>transferPositionRequestPassTimestamp := requestPassTime\<rparr>), [])))))"

definition transferPositionPassedRequest ::
  "nat \<Rightarrow> address \<Rightarrow> address \<Rightarrow> Ledger \<Rightarrow> error + (Ledger \<times> Effect list)" where
  "transferPositionPassedRequest now sender newSponsorAddress st =
     bindE (noPendingWithdrawal st sender) (\<lambda>_.
     bindE (getFeeAdjustedCollateral st (rawCollateral (positions st newSponsorAddress))) (\<lambda>c.
     bindE (require (c = 0) SponsorAlreadyHasPosition) (\<lambda>_.
     bindE (getPositionData st sender) (\<lambda>positionData.
     bindE (require (transferPositionRequestPassTimestamp positionData \<noteq> 0
                     \<and> transferPositionRequestPassTimestamp positionData \<le> now)
              InvalidTransferRequest) (\<lambda>_.
     let st1 = setPosition st sender (positionData\<lparr>transferPositionRequestPassTimestamp := 0\<rparr>);
         st2 = setPosition st1 newSponsorAddress (positions st1 sender);
         st3 = setPosition st2 sender emptyPosition
     in Inr (st3, []))))))"

definition cancelTransferPosition :: "address \<Rightarrow> Ledger \<Rightarrow> error + (Ledger \<times> Effect list)" where
  "cancelTransferPosition sender st =
     bindE (getPositionData st sender) (\<lambda>positionData.
     bindE (require (transferPositionRequestPassTimestamp positionData \<noteq> 0) NoPendingTransfer) (\<lambda>_.
     Inr (setPosition st sender (positionData\<lparr>transferPositionRequestPassTimestamp := 0\<rparr>), [])))"

definition depositTo ::
  "address \<Rightarrow> address \<Rightarrow> nat \<Rightarrow> Ledger \<Rightarrow> error + (Ledger \<times> Effect list)" where
  "depositTo sender sponsor collateralAmount st =
     bindE (noPendingWithdrawal st sponsor) (\<lambda>_.
     bindE (require (0 < collateralAmount) InvalidCollateralAmount) (\<lambda>_.
     bindE (getPositionData st sponsor) (\<lambda>_.
     bindE (incrementCollateralBalances st sponsor collateralAmount) (\<lambda>(st', _).
     Inr (st', [CollateralTransferFrom sender collateralAmount])))))"

definition deposit :: "address \<Rightarrow> nat \<Rightarrow> Ledger \<Rightarrow> error + (Ledger \<times> Effect list)" where
  "deposit sender collateralAmount st = depositTo sender sender collateralAmount st"

definition withdraw ::
  "address \<Rightarrow> nat \<Rightarrow> Ledger \<Rightarrow> error + (Ledger \<times> nat \<times> Effect list)" where
  "withdraw sender collateralAmount st =
     bindE (noPendingWithdrawal st sender) (\<lambda>_.
     bindE (getPositionData st sender) (\<lambda>_.
     bindE (require (0 < collateralAmount) InvalidCollateralAmount) (\<lambda>_.
     bindE (decrementCollateralBalancesCheckGCR st sender collateralAmount) (\<lambda>(st', amountWithdrawn).
     Inr (st', amountWithdrawn, [CollateralTransfer sender amountWithdrawn])))))"

definition requestWithdrawal ::
  "Config \<Rightarrow> nat \<Rightarrow> address \<Rightarrow> nat \<Rightarrow> Ledger \<Rightarrow> error + (Ledger \<times> Effect list)" where
  "requestWithdrawal cfg now sender collateralAmount st =
     bindE (noPendingWithdrawal st sender) (\<lambda>_.
     bindE (getPositionData st sender) (\<lambda>positionData.
     bindE (if 0 < collateralAmount
            then bindE (getFeeAdjustedCollateral st (rawCollateral positionData)) (\<lambda>c.
                 Inr (collateralAmount \<le> c))
            else Inr False) (\<lambda>valid.
     bindE (require valid InvalidCollateralAmount) (\<lambda>_.
     bindE (SafeMath_add now (withdrawalLiveness cfg)) (\<lambda>requestPassTime.
     Inr (setPosition st sender
            (positionData\<lparr>withdrawalRequestPassTimestamp := requestPassTime,
                           withdrawalRequestAmount := collateralAmount\<rparr>), []))))))"

definition withdrawPassedRequest ::
  "nat \<Rightarrow> address \<Rightarrow> Ledger \<Rightarrow> error + (Ledger \<times> nat \<times> Effect list)" where
  "withdrawPassedRequest now sender st =
     bindE (getPositionData st sender) (\<lambda>positionData.
     bindE (require (withdrawalRequestPassTimestamp positionData \<noteq> 0
                     \<and> withdrawalRequestPassTimestamp positionData \<le> now)
              InvalidWithdrawRequest) (\<lambda>_.
     bindE (getFeeAdjustedCollateral st (rawCollateral positionData)) (\<lambda>c.
     let amountToWithdraw =
           (if c < withdrawalRequestAmount positionData then c
            else withdrawalRequestAmount positionData) in
     bindE (decrementCollateralBalances st sender amountToWithdraw) (\<lambda>(st1, amountWithdrawn).
     Inr (setPosition st1 sender (resetWithdrawalRequest (positions st1 sender)),
          amountWithdrawn, [CollateralTransfer sender amountWithdrawn])))))"

definition cancelWithdrawal :: "address \<Rightarrow> Ledger \<Rightarrow> error + (Ledger \<times> Effect list)" where
  "cancelWithdrawal sender st =
     bindE (getPositionData st sender) (\<lambda>positionData.
     bindE (require (withdrawalRequestPassTimestamp positionData \<noteq> 0) NoPendingWithdrawal) (\<lambda>_.
     Inr (setPosition st sender (resetWithdrawalRequest positionData), [])))"

definition create ::
  "Config \<Rightarrow> address \<Rightarrow> nat \<Rightarrow> nat \<Rightarrow> Ledger \<Rightarrow> error + (Ledger \<times> Effect list)" where
  "create cfg sender collateralAmount numTokens st =
     (let positionData = positions st sender in
     bindE (getFeeAdjustedCollateral st (rawCollateral positionData)) (\<lambda>c.
     bindE (FixedPoint_add c collateralAmount) (\<lambda>newCollateral.
     bindE (FixedPoint_add (tokensOutstanding positionData) numTokens) (\<lambda>newTokens.
     bindE (checkCollateralization st newCollateral newTokens) (\<lambda>resultant.
     bindE (if resultant then Inr True
            else checkCollateralization st collateralAmount numTokens) (\<lambda>ok.
     bindE (require ok InsufficientCollateral) (\<lambda>_.
     bindE (require (withdrawalRequestPassTimestamp positionData = 0) PendingWithdrawal) (\<lambda>_.
     bindE (if tokensOutstanding positionData = 0
            then require (minSponsorTokens cfg \<le> numTokens) BelowMinimumSponsorPosition
            else Inr ()) (\<lambda>_.
     bindE (incrementCollateralBalances st sender collateralAmount) (\<lambda>(st1, _).
     bindE (FixedPoint_add (tokensOutstanding (positions st1 sender)) numTokens) (\<lambda>tokens'.
     bindE (FixedPoint_add (totalTokensOutstanding st1) numTokens) (\<lambda>total'.
     Inr ((setPosition st1 sender ((positions st1 sender)\<lparr>tokensOutstanding := tokens'\<rparr>))
            \<lparr>totalTokensOutstanding := total'\<rparr>,
          [CollateralTransferFrom sender collateralAmount, TokenMint sender numTokens])))))))))))))"

definition redeem ::
  "Config \<Rightarrow> address \<Rightarrow> nat \<Rightarrow> Ledger \<Rightarrow> error + (Ledger \<times> nat \<times> Effect list)" where
  "redeem cfg sender numTokens st =
     bindE (noPendingWithdrawal st sender) (\<lambda>_.
     bindE (getPositionData st sender) (\<lambda>positionData.
     bindE (require (\<not> tokensOutstanding positionData < numTokens) InvalidTokenAmount) (\<lambda>_.
     bindE (FixedPoint_div numTokens (tokensOutstanding positionData)) (\<lambda>fractionRedeemed.
     bindE (getFeeAdjustedCollateral st (rawCollateral positionData)) (\<lambda>c.
     bindE (FixedPoint_mul fractionRedeemed c) (\<lambda>collateralRedeemed.
     bindE (if tokensOutstanding positionData = numTokens
            then deleteSponsorPosition st sender
            else
              bindE (decrementCollateralBalances st sender collateralRedeemed) (\<lambda>(st1, amountWithdrawn).
              bindE (FixedPoint_sub (tokensOutstanding (positions st1 sender)) numTokens) (\<lambda>newTokenCount.
              bindE (require (minSponsorTokens cfg \<le> newTokenCount) BelowMinimumSponsorPosition) (\<lambda>_.
              bindE (FixedPoint_sub (totalTokensOutstanding st1) numTokens) (\<lambda>total'.
              Inr ((setPosition st1 sender ((positions st1 sender)\<lparr>tokensOutstanding := newTokenCount\<rparr>))
                     \<lparr>totalTokensOutstanding := total'\<rparr>, amountWithdrawn)))))) (\<lambda>(st', amountWithdrawn).
     Inr (st', amountWithdrawn,
          [CollateralTransfer sender amountWithdrawn, TokenTransferFrom sender numTokens,
           TokenBurn numTokens]))))))))"

subsection \<open>Sequences of calls\<close>

datatype Op =
    Create address nat nat
  | DepositTo address address nat
  | Deposit address nat
  | Withdraw address nat
  | RequestWithdrawal address nat
  | WithdrawPassedRequest address
  | CancelWithdrawal address
  | RequestTransferPosition address
  | TransferPositionPassedRequest address address
  | CancelTransferPosition address
  | Redeem address nat
  | ChargeFees nat

text \<open>One call at clock value \<open>now\<close>; the result keeps the ledger only.\<close>

fun execOp :: "Config \<Rightarrow> nat \<Rightarrow> Op \<Rightarrow> Ledger \<Rightarrow> error + Ledger" where
  "execOp cfg now (Create s c n) st = bindE (create cfg s c n st) (\<lambda>(st', _). Inr st')"
| "execOp cfg now (DepositTo s sp c) st = bindE (depositTo s sp c st) (\<lambda>(st', _). Inr st')"
| "execOp cfg now (Deposit s c) st = bindE (deposit s c st) (\<lambda>(st', _). Inr st')"
| "execOp cfg now (Withdraw s c) st = bindE (withdraw s c st) (\<lambda>(st', _). Inr st')"
| "execOp cfg now (RequestWithdrawal s c) st =
     bindE (requestWithdrawal cfg now s c st) (\<lambda>(st', _). Inr st')"
| "execOp cfg now (WithdrawPassedRequest s) st =
     bindE (withdrawPassedRequest now s st) (\<lambda>(st', _). Inr st')"
| "execOp cfg now (CancelWithdrawal s) st = bindE (cancelWithdrawal s st) (\<lambda>(st', _). Inr st')"
| "execOp cfg now (RequestTransferPosition s) st =
     bindE (requestTransferPosition cfg now s st) (\<lambda>(st', _). Inr st')"
| "execOp cfg now (TransferPositionPassedRequest s n) st =
     bindE (transferPositionPassedRequest now s n st) (\<lambda>(st', _). Inr st')"
| "execOp cfg now (CancelTransferPosition s) st =
     bindE (cancelTransferPosition s st) (\<lambda>(st', _). Inr st')"
| "execOp cfg now (Redeem s n) st = bindE (redeem cfg s n st) (\<lambda>(st', _). Inr st')"
| "execOp cfg now (ChargeFees m) st = chargeFees m st"

text \<open>A sequence of calls, each with its clock value, all of which succeed.\<close>

fun runOps :: "Config \<Rightarrow> (nat \<times> Op) list \<Rightarrow> Ledger \<Rightarrow> error + Ledger" where
  "runOps cfg [] st = Inr st"
| "runOps cfg ((now, op) # rest) st = bindE (execOp cfg now op st) (runOps cfg rest)"

subsection \<open>What a call writes\<close>

text \<open>
  \<open>closesPosition op a t\<close>: the call is the full closure of the position of \<open>a\<close>, which has
  \<open>t\<close> tokens outstanding: \<open>a\<close> redeems all \<open>t\<close> tokens, or transfers the position away.
\<close>

fun closesPosition :: "Op \<Rightarrow> address \<Rightarrow> nat \<Rightarrow> bool" where
  "closesPosition (Redeem s n) a t = (s = a \<and> n = t)"
| "closesPosition (TransferPositionPassedRequest s n) a t = (s = a)"
| "closesPosition _ a t = False"

text \<open>
  \<open>positionUpdate cfg op st a st'\<close> collects what every call other than a transfer and a
  charging of fees does when it succeeds: it writes the struct of one sponsor \<open>a\<close>, keeps the
  multiplier, moves the raw aggregate by what it moves the raw collateral of \<open>a\<close>, and the new
  token count of \<open>a\<close> is zero after a full redemption, not smaller than before and at least the
  minimum when it was zero (\<open>create\<close>), at least the minimum and positive (a partial
  \<open>redeem\<close>), or the old one, on a position that holds collateral.
\<close>

definition positionUpdate :: "Config \<Rightarrow> Op \<Rightarrow> Ledger \<Rightarrow> address \<Rightarrow> Ledger \<Rightarrow> bool" where
  "positionUpdate cfg op st a st' \<longleftrightarrow>
     positions st' = (positions st)(a := positions st' a)
     \<and> cumulativeFeeMultiplier st' = cumulativeFeeMultiplier st
     \<and> rawTotalPositionCollateral st' + rawCollateral (positions st a)
         = rawTotalPositionCollateral st + rawCollateral (positions st' a)
     \<and> (rawTotalPositionCollateral st' \<le> rawTotalPositionCollateral st
        \<or> rawTotalPositionCollateral st' * cumulativeFeeMultiplier st \<le> UINT_MAX)
     \<and> rawCollateral (positions st a) \<le> rawTotalPositionCollateral st
          + rawCollateral (positions st' a)
     \<and> (positions st' a = emptyPosition
          \<and> op = Redeem a (tokensOutstanding (positions st a))
        \<or> tokensOutstanding (positions st a) \<le> tokensOutstanding (positions st' a)
          \<and> (tokensOutstanding (positions st a) = 0
               \<longrightarrow> minSponsorTokens cfg \<le> tokensOutstanding (positions st' a))
          \<and> (\<exists>c n. op = Create a c n)
        \<or> 0 < tokensOutstanding (positions st' a)
          \<and> minSponsorTokens cfg \<le> tokensOutstanding (positions st' a)
          \<and> (\<exists>c. getFeeAdjustedCollateral st (rawCollateral (positions st a)) = Inr c \<and> 0 < c)
        \<or> tokensOutstanding (positions st' a) = tokensOutstanding (positions st a)
          \<and> 0 < rawCollateral (positions st a)
          \<and> (\<exists>c. getFeeAdjustedCollateral st (rawCollateral (positions st a)) = Inr c \<and> 0 < c))"

subsection \<open>Sums over the positions and the invariant of the ledger\<close>

text \<open>
  The addresses are finitely many, so the sums run over all of them; an address without a
  position contributes zero. \<open>positionCollateral\<close> is the fee-adjusted collateral of a position
  as \<open>_getFeeAdjustedCollateral\<close> computes it.
\<close>

definition sumRawCollateral :: "Ledger \<Rightarrow> nat" where
  "sumRawCollateral st = (\<Sum>a\<in>UNIV. rawCollateral (positions st a))"

definition positionCollateral :: "Ledger \<Rightarrow> address \<Rightarrow> nat" where
  "positionCollateral st a =
     (case getFeeAdjustedCollateral st (rawCollateral (positions st a)) of
        Inr c \<Rightarrow> c | Inl e \<Rightarrow> 0)"

definition sumPositionCollateral :: "Ledger \<Rightarrow> nat" where
  "sumPositionCollateral st = (\<Sum>a\<in>UNIV. positionCollateral st a)"

definition ledgerInv :: "Config \<Rightarrow> Ledger \<Rightarrow> bool" where
  "ledgerInv cfg st \<longleftrightarrow>
     sumRawCollateral st \<le> rawTotalPositionCollateral st
     \<and> cumulativeFeeMultiplier st \<le> FP_SCALING_FACTOR
     \<and> (cumulativeFeeMultiplier st = FP_SCALING_FACTOR
          \<longrightarrow> sumRawCollateral st = rawTotalPositionCollateral st)
     \<and> rawTotalPositionCollateral st * cumulativeFeeMultiplier st \<le> UINT_MAX
     \<and> (\<forall>a. 0 < tokensOutstanding (positions st a)
            \<longrightarrow> minSponsorTokens cfg \<le> tokensOutstanding (positions st a))
     \<and> (0 < minSponsorTokens cfg
          \<longrightarrow> (\<forall>a. 0 < rawCollateral (positions st a)
                 \<longrightarrow> 0 < tokensOutstanding (positions st a)))"

subsection \<open>Runs without a transfer, and the ratios in the words of the specification\<close>

fun isTransfer :: "Op \<Rightarrow> bool" where
  "isTransfer (TransferPositionPassedRequest s n) = True"
| "isTransfer _ = False"

fun transferFree :: "(nat \<times> Op) list \<Rightarrow> bool" where
  "transferFree [] = True"
| "transferFree ((now, op) # rest) = (\<not> isTransfer op \<and> transferFree rest)"

text \<open>
  The raw collateral that a call takes out of the positions without taking it out of the
  aggregate: what the recipient of a transfer held in \<open>rawCollateral\<close> (its fee-adjusted value
  is zero, or the transfer reverts), since the recipient's struct is overwritten.
\<close>

fun overwrittenCollateral :: "Op \<Rightarrow> Ledger \<Rightarrow> nat" where
  "overwrittenCollateral (TransferPositionPassedRequest s n) st = rawCollateral (positions st n)"
| "overwrittenCollateral _ st = 0"

text \<open>The number of positions that hold raw collateral.\<close>

definition collateralizedCount :: "Ledger \<Rightarrow> nat" where
  "collateralizedCount st = card {a. 0 < rawCollateral (positions st a)}"

text \<open>
  The collateralization ratios as the specification words them, written as plain arithmetic
  and not through the functions of the contract: the fee-adjusted value is the raw value times
  the multiplier, a ratio is collateral divided by tokens at 18 decimals, truncated, and zero
  when there are no tokens; the ratio of a position is that of its fee-adjusted collateral and
  its tokens, the global ratio that of the two aggregates.
\<close>

definition feeAdjusted :: "Ledger \<Rightarrow> nat \<Rightarrow> nat" where
  "feeAdjusted st raw = raw * cumulativeFeeMultiplier st div FP_SCALING_FACTOR"

definition ratio :: "nat \<Rightarrow> nat \<Rightarrow> nat" where
  "ratio collateral tokens = (if tokens = 0 then 0 else collateral * FP_SCALING_FACTOR div tokens)"

definition positionRatio :: "Ledger \<Rightarrow> address \<Rightarrow> nat" where
  "positionRatio st a =
     ratio (feeAdjusted st (rawCollateral (positions st a))) (tokensOutstanding (positions st a))"

definition globalRatio :: "Ledger \<Rightarrow> nat" where
  "globalRatio st =
     ratio (feeAdjusted st (rawTotalPositionCollateral st)) (totalTokensOutstanding st)"

text \<open>
  \<open>twoSponsorLedger\<close>: sponsor 2 holds 5 of collateral and no tokens, sponsor 1 holds 11 of
  collateral and 1 token and has asked at time 2 to withdraw 1; fees have then lowered the
  multiplier to 0.9. \<open>twoSponsorLedgerAfter\<close>: the ledger after the request is executed.
\<close>

definition twoSponsorLedger :: Ledger where
  "twoSponsorLedger = \<lparr>positions = (\<lambda>_. emptyPosition)
       (2 := \<lparr>tokensOutstanding = 0, withdrawalRequestPassTimestamp = 0,
               withdrawalRequestAmount = 0, rawCollateral = 5,
               transferPositionRequestPassTimestamp = 0\<rparr>,
        1 := \<lparr>tokensOutstanding = 1, withdrawalRequestPassTimestamp = 12,
               withdrawalRequestAmount = 1, rawCollateral = 11,
               transferPositionRequestPassTimestamp = 0\<rparr>),
     totalTokensOutstanding = 1, rawTotalPositionCollateral = 16,
     cumulativeFeeMultiplier = 900000000000000000\<rparr>"

definition twoSponsorLedgerAfter :: Ledger where
  "twoSponsorLedgerAfter = \<lparr>positions = (\<lambda>_. emptyPosition)
       (2 := \<lparr>tokensOutstanding = 0, withdrawalRequestPassTimestamp = 0,
               withdrawalRequestAmount = 0, rawCollateral = 5,
               transferPositionRequestPassTimestamp = 0\<rparr>,
        1 := \<lparr>tokensOutstanding = 1, withdrawalRequestPassTimestamp = 0,
               withdrawalRequestAmount = 0, rawCollateral = 10,
               transferPositionRequestPassTimestamp = 0\<rparr>),
     totalTokensOutstanding = 1, rawTotalPositionCollateral = 15,
     cumulativeFeeMultiplier = 900000000000000000\<rparr>"

subsection \<open>Concrete ledgers\<close>

text \<open>
  A deployment with a liveness of ten seconds and no minimum size, and the ledger after sponsor 1
  has created a position (15 of collateral, 10 tokens), asked at time 1 to transfer it and at
  time 2 to withdraw 5.
\<close>

definition demoConfig :: Config where
  "demoConfig = \<lparr>withdrawalLiveness = 10, minSponsorTokens = 0, expirationTimestamp = 1000000\<rparr>"

definition requestsLedger :: Ledger where
  "requestsLedger = \<lparr>positions = (\<lambda>_. emptyPosition)(1 :=
       \<lparr>tokensOutstanding = 10, withdrawalRequestPassTimestamp = 12,
        withdrawalRequestAmount = 5, rawCollateral = 15,
        transferPositionRequestPassTimestamp = 11\<rparr>),
     totalTokensOutstanding = 10, rawTotalPositionCollateral = 15,
     cumulativeFeeMultiplier = FP_SCALING_FACTOR\<rparr>"

text \<open>
  \<open>transferLedger\<close>: sponsor 1 holds 15 of collateral and 10 tokens and has asked at time 1
  to transfer the position. \<open>transferredLedger\<close>: the same position under the key of sponsor 2.
  \<open>drainedLedger\<close>: sponsor 1 has created 5 tokens against 10 of collateral, asked for a
  transfer, and withdrawn all 10 through a withdrawal request.
\<close>

definition transferLedger :: Ledger where
  "transferLedger = \<lparr>positions = (\<lambda>_. emptyPosition)(1 :=
       \<lparr>tokensOutstanding = 10, withdrawalRequestPassTimestamp = 0,
        withdrawalRequestAmount = 0, rawCollateral = 15,
        transferPositionRequestPassTimestamp = 11\<rparr>),
     totalTokensOutstanding = 10, rawTotalPositionCollateral = 15,
     cumulativeFeeMultiplier = FP_SCALING_FACTOR\<rparr>"

definition transferredLedger :: Ledger where
  "transferredLedger = \<lparr>positions = (\<lambda>_. emptyPosition)(2 :=
       \<lparr>tokensOutstanding = 10, withdrawalRequestPassTimestamp = 0,
        withdrawalRequestAmount = 0, rawCollateral = 15,
        transferPositionRequestPassTimestamp = 0\<rparr>),
     totalTokensOutstanding = 10, rawTotalPositionCollateral = 15,
     cumulativeFeeMultiplier = FP_SCALING_FACTOR\<rparr>"

definition drainedLedger :: Ledger where
  "drainedLedger = \<lparr>positions = (\<lambda>_. emptyPosition)(1 :=
       \<lparr>tokensOutstanding = 5, withdrawalRequestPassTimestamp = 0,
        withdrawalRequestAmount = 0, rawCollateral = 0,
        transferPositionRequestPassTimestamp = 11\<rparr>),
     totalTokensOutstanding = 5, rawTotalPositionCollateral = 0,
     cumulativeFeeMultiplier = FP_SCALING_FACTOR\<rparr>"

text \<open>
  \<open>truncationLedger\<close>: sponsors 1 and 2 hold 15 of collateral and 10 tokens each, and fees
  have lowered the multiplier to 0.9.
\<close>

definition truncationLedger :: Ledger where
  "truncationLedger = \<lparr>positions = (\<lambda>_. emptyPosition)
       (1 := \<lparr>tokensOutstanding = 10, withdrawalRequestPassTimestamp = 0,
               withdrawalRequestAmount = 0, rawCollateral = 15,
               transferPositionRequestPassTimestamp = 0\<rparr>,
        2 := \<lparr>tokensOutstanding = 10, withdrawalRequestPassTimestamp = 0,
               withdrawalRequestAmount = 0, rawCollateral = 15,
               transferPositionRequestPassTimestamp = 0\<rparr>),
     totalTokensOutstanding = 20, rawTotalPositionCollateral = 30,
     cumulativeFeeMultiplier = 900000000000000000\<rparr>"

text \<open>
  \<open>overwriteBefore\<close>: sponsor 2 holds 5 tokens and has withdrawn all its collateral through a
  request; sponsor 1 holds 10 of collateral, no tokens, and a transfer request that passes at 24.
  \<open>overwriteAfter\<close>: the ledger after sponsor 1 has transferred its position to sponsor 2.
  \<open>minTenConfig\<close>: a deployment with a minimum size of 10 tokens.
\<close>

definition overwriteBefore :: Ledger where
  "overwriteBefore = \<lparr>positions = (\<lambda>_. emptyPosition)
       (2 := \<lparr>tokensOutstanding = 5, withdrawalRequestPassTimestamp = 0,
               withdrawalRequestAmount = 0, rawCollateral = 0,
               transferPositionRequestPassTimestamp = 0\<rparr>,
        1 := \<lparr>tokensOutstanding = 0, withdrawalRequestPassTimestamp = 0,
               withdrawalRequestAmount = 0, rawCollateral = 10,
               transferPositionRequestPassTimestamp = 24\<rparr>),
     totalTokensOutstanding = 5, rawTotalPositionCollateral = 10,
     cumulativeFeeMultiplier = FP_SCALING_FACTOR\<rparr>"

definition overwriteAfter :: Ledger where
  "overwriteAfter = \<lparr>positions = (\<lambda>_. emptyPosition)
       (2 := \<lparr>tokensOutstanding = 0, withdrawalRequestPassTimestamp = 0,
               withdrawalRequestAmount = 0, rawCollateral = 10,
               transferPositionRequestPassTimestamp = 0\<rparr>),
     totalTokensOutstanding = 5, rawTotalPositionCollateral = 10,
     cumulativeFeeMultiplier = FP_SCALING_FACTOR\<rparr>"

definition minTenConfig :: Config where
  "minTenConfig = \<lparr>withdrawalLiveness = 10, minSponsorTokens = 10, expirationTimestamp = 1000000\<rparr>"

text \<open>
  \<open>gcrLedger\<close>: sponsor 2 holds 100 of collateral for 100 tokens, sponsor 1 holds 300 for 100.
  \<open>gcrLedgerAfter\<close>: sponsor 2 has then created 100 tokens more with 300 of collateral.
  \<open>gcrLedgerWithdrawn\<close>: sponsor 1 has instead withdrawn 50.
\<close>

definition gcrLedger :: Ledger where
  "gcrLedger = \<lparr>positions = (\<lambda>_. emptyPosition)
       (2 := \<lparr>tokensOutstanding = 100, withdrawalRequestPassTimestamp = 0,
               withdrawalRequestAmount = 0, rawCollateral = 100,
               transferPositionRequestPassTimestamp = 0\<rparr>,
        1 := \<lparr>tokensOutstanding = 100, withdrawalRequestPassTimestamp = 0,
               withdrawalRequestAmount = 0, rawCollateral = 300,
               transferPositionRequestPassTimestamp = 0\<rparr>),
     totalTokensOutstanding = 200, rawTotalPositionCollateral = 400,
     cumulativeFeeMultiplier = FP_SCALING_FACTOR\<rparr>"

definition gcrLedgerAfter :: Ledger where
  "gcrLedgerAfter = \<lparr>positions = (\<lambda>_. emptyPosition)
       (2 := \<lparr>tokensOutstanding = 200, withdrawalRequestPassTimestamp = 0,
               withdrawalRequestAmount = 0, rawCollateral = 400,
               transferPositionRequestPassTimestamp = 0\<rparr>,
        1 := \<lparr>tokensOutstanding = 100, withdrawalRequestPassTimestamp = 0,
               withdrawalRequestAmount = 0, rawCollateral = 300,
               transferPositionRequestPassTimestamp = 0\<rparr>),
     totalTokensOutstanding = 300, rawTotalPositionCollateral = 700,
     cumulativeFeeMultiplier = FP_SCALING_FACTOR\<rparr>"

definition gcrLedgerWithdrawn :: Ledger where
  "gcrLedgerWithdrawn = \<lparr>positions = (\<lambda>_. emptyPosition)
       (2 := \<lparr>tokensOutstanding = 100, withdrawalRequestPassTimestamp = 0,
               withdrawalRequestAmount = 0, rawCollateral = 100,
               transferPositionRequestPassTimestamp = 0\<rparr>,
        1 := \<lparr>tokensOutstanding = 100, withdrawalRequestPassTimestamp = 0,
               withdrawalRequestAmount = 0, rawCollateral = 250,
               transferPositionRequestPassTimestamp = 0\<rparr>),
     totalTokensOutstanding = 200, rawTotalPositionCollateral = 350,
     cumulativeFeeMultiplier = FP_SCALING_FACTOR\<rparr>"

text \<open>
  \<open>feeLedger\<close>: sponsor 1 holds 50 units (of 18 decimals) of collateral, has asked at time 2 to
  withdraw all 50, and fees have then lowered the multiplier to 0.9. \<open>feeLedgerAfter\<close>: the
  ledger after the request is executed. \<open>shrunkLedger\<close>, \<open>shrunkLedgerAfter\<close>: the same with
  a raw collateral of 11 and a request of 1. \<open>dustLedger\<close>: the same with a raw collateral
  of 1 and a request of 1.
\<close>

definition feeLedger :: Ledger where
  "feeLedger = \<lparr>positions = (\<lambda>_. emptyPosition)
       (1 := \<lparr>tokensOutstanding = 10, withdrawalRequestPassTimestamp = 12,
               withdrawalRequestAmount = 50000000000000000000,
               rawCollateral = 50000000000000000000,
               transferPositionRequestPassTimestamp = 0\<rparr>),
     totalTokensOutstanding = 10, rawTotalPositionCollateral = 50000000000000000000,
     cumulativeFeeMultiplier = 900000000000000000\<rparr>"

definition feeLedgerAfter :: Ledger where
  "feeLedgerAfter = \<lparr>positions = (\<lambda>_. emptyPosition)
       (1 := \<lparr>tokensOutstanding = 10, withdrawalRequestPassTimestamp = 0,
               withdrawalRequestAmount = 0, rawCollateral = 0,
               transferPositionRequestPassTimestamp = 0\<rparr>),
     totalTokensOutstanding = 10, rawTotalPositionCollateral = 0,
     cumulativeFeeMultiplier = 900000000000000000\<rparr>"

definition shrunkLedger :: Ledger where
  "shrunkLedger = \<lparr>positions = (\<lambda>_. emptyPosition)
       (1 := \<lparr>tokensOutstanding = 1, withdrawalRequestPassTimestamp = 12,
               withdrawalRequestAmount = 1, rawCollateral = 11,
               transferPositionRequestPassTimestamp = 0\<rparr>),
     totalTokensOutstanding = 1, rawTotalPositionCollateral = 11,
     cumulativeFeeMultiplier = 900000000000000000\<rparr>"

definition shrunkLedgerAfter :: Ledger where
  "shrunkLedgerAfter = \<lparr>positions = (\<lambda>_. emptyPosition)
       (1 := \<lparr>tokensOutstanding = 1, withdrawalRequestPassTimestamp = 0,
               withdrawalRequestAmount = 0, rawCollateral = 10,
               transferPositionRequestPassTimestamp = 0\<rparr>),
     totalTokensOutstanding = 1, rawTotalPositionCollateral = 10,
     cumulativeFeeMultiplier = 900000000000000000\<rparr>"

definition dustLedger :: Ledger where
  "dustLedger = \<lparr>positions = (\<lambda>_. emptyPosition)
       (1 := \<lparr>tokensOutstanding = 1, withdrawalRequestPassTimestamp = 12,
               withdrawalRequestAmount = 1, rawCollateral = 1,
               transferPositionRequestPassTimestamp = 0\<rparr>),
     totalTokensOutstanding = 1, rawTotalPositionCollateral = 1,
     cumulativeFeeMultiplier = 900000000000000000\<rparr>"

text \<open>
  \<open>strandedLedger\<close>: sponsor 2 holds 1 of raw collateral, sponsor 1 holds 10 and a transfer
  request that passes at 11, neither holds tokens, and fees have lowered the multiplier to 0.9,
  so that the collateral of sponsor 2 is worth 0.
  \<open>strandedLedgerAfter\<close>: the ledger after sponsor 1 has transferred its position to sponsor 2.
\<close>

definition strandedLedger :: Ledger where
  "strandedLedger = \<lparr>positions = (\<lambda>_. emptyPosition)
       (2 := \<lparr>tokensOutstanding = 0, withdrawalRequestPassTimestamp = 0,
               withdrawalRequestAmount = 0, rawCollateral = 1,
               transferPositionRequestPassTimestamp = 0\<rparr>,
        1 := \<lparr>tokensOutstanding = 0, withdrawalRequestPassTimestamp = 0,
               withdrawalRequestAmount = 0, rawCollateral = 10,
               transferPositionRequestPassTimestamp = 11\<rparr>),
     totalTokensOutstanding = 0, rawTotalPositionCollateral = 11,
     cumulativeFeeMultiplier = 900000000000000000\<rparr>"

definition strandedLedgerAfter :: Ledger where
  "strandedLedgerAfter = \<lparr>positions = (\<lambda>_. emptyPosition)
       (2 := \<lparr>tokensOutstanding = 0, withdrawalRequestPassTimestamp = 0,
               withdrawalRequestAmount = 0, rawCollateral = 10,
               transferPositionRequestPassTimestamp = 0\<rparr>),
     totalTokensOutstanding = 0, rawTotalPositionCollateral = 11,
     cumulativeFeeMultiplier = 900000000000000000\<rparr>"

section \<open>Basic facts\<close>

lemma bindE_Inr [simp]: "bindE (Inr x) f = f x"
  by (simp add: bindE_def)

lemma bindE_Inl [simp]: "bindE (Inl e) f = Inl e"
  by (simp add: bindE_def)

lemma bindE_eq_Inr: "bindE m f = Inr y \<longleftrightarrow> (\<exists>x. m = Inr x \<and> f x = Inr y)"
  by (cases m) simp_all

lemma require_eq_Inr [simp]: "require c e = Inr u \<longleftrightarrow> c"
  by (simp add: require_def)

lemma require_eq_Inl [simp]: "require c e = Inl e' \<longleftrightarrow> \<not> c \<and> e' = e"
  by (auto simp: require_def)

lemma require_True [simp]: "require True e = Inr ()"
  by (simp add: require_def)

lemma require_False [simp]: "require False e = Inl e"
  by (simp add: require_def)

lemma FP_SCALING_FACTOR_pos [simp]: "0 < FP_SCALING_FACTOR"
  by (simp add: FP_SCALING_FACTOR_def)

lemmas arith_defs = FixedPoint_add_def FixedPoint_sub_def FixedPoint_mul_def FixedPoint_div_def
  SafeMath_add_def UINT_MAX_def FP_SCALING_FACTOR_def

lemmas fee_defs = getFeeAdjustedCollateral_def convertToRawCollateral_def removeCollateral_def
  addCollateral_def

lemmas internal_defs = setPosition_def getPositionData_def noPendingWithdrawal_def
  getCollateralizationRatio_def checkCollateralization_def checkPositionCollateralization_def
  resetWithdrawalRequest_def incrementCollateralBalances_def decrementCollateralBalances_def
  decrementCollateralBalancesCheckGCR_def deleteSponsorPosition_def

lemmas op_defs = requestTransferPosition_def transferPositionPassedRequest_def
  cancelTransferPosition_def depositTo_def deposit_def withdraw_def requestWithdrawal_def
  withdrawPassedRequest_def cancelWithdrawal_def create_def redeem_def chargeFees_def

lemmas eval_defs = op_defs internal_defs fee_defs arith_defs demoConfig_def emptyLedger_def
  emptyPosition_def Let_def

lemma getFeeAdjustedCollateral_zero [simp]: "getFeeAdjustedCollateral st 0 = Inr 0"
  by (simp add: getFeeAdjustedCollateral_def FixedPoint_mul_def)

lemma getPositionData_Inr:
  "getPositionData st s = Inr p \<longleftrightarrow>
     p = positions st s \<and>
     (\<exists>c. getFeeAdjustedCollateral st (rawCollateral (positions st s)) = Inr c \<and> 0 < c)"
  by (auto simp: getPositionData_def bindE_eq_Inr)

lemma getPositionData_no_collateral:
  "getFeeAdjustedCollateral st (rawCollateral (positions st s)) = Inr 0 \<Longrightarrow>
   getPositionData st s = Inl PositionHasNoCollateral"
  by (simp add: getPositionData_def)

lemma noPendingWithdrawal_no_collateral:
  "getFeeAdjustedCollateral st (rawCollateral (positions st s)) = Inr 0 \<Longrightarrow>
   noPendingWithdrawal st s = Inl PositionHasNoCollateral"
  by (simp add: noPendingWithdrawal_def getPositionData_no_collateral)

lemma getCollateralizationRatio_no_tokens: "getCollateralizationRatio c 0 = Inr 0"
  by (simp add: getCollateralizationRatio_def)

lemma deleteSponsorPosition_Inr:
  "deleteSponsorPosition st s = Inr (st', r) \<Longrightarrow>
   st' = st\<lparr>positions := (positions st)(s := emptyPosition),
        totalTokensOutstanding := totalTokensOutstanding st - tokensOutstanding (positions st s),
        rawTotalPositionCollateral :=
          rawTotalPositionCollateral st - rawCollateral (positions st s)\<rparr>
   \<and> rawCollateral (positions st s) \<le> rawTotalPositionCollateral st
   \<and> tokensOutstanding (positions st s) \<le> totalTokensOutstanding st"
  by (auto simp: deleteSponsorPosition_def bindE_eq_Inr getPositionData_Inr setPosition_def
      Let_def FixedPoint_sub_def split: if_splits)

lemma requestsLedger_reachable:
  "runOps demoConfig
     [(1, Create 1 15 10), (1, RequestTransferPosition 1), (2, RequestWithdrawal 1 5)]
     emptyLedger = Inr requestsLedger"
  by (simp add: op_defs internal_defs fee_defs arith_defs demoConfig_def emptyLedger_def
      emptyPosition_def requestsLedger_def Let_def)

section \<open>What a successful call does to the ledger\<close>

lemma getFeeAdjustedCollateral_Inr:
  "getFeeAdjustedCollateral st raw = Inr g \<longleftrightarrow>
     raw * cumulativeFeeMultiplier st \<le> UINT_MAX \<and> g = raw * cumulativeFeeMultiplier st div FP_SCALING_FACTOR"
  by (auto simp: getFeeAdjustedCollateral_def FixedPoint_mul_def)

lemma convertToRawCollateral_Inr:
  "convertToRawCollateral st c = Inr d \<longleftrightarrow>
     c * FP_SCALING_FACTOR \<le> UINT_MAX \<and> cumulativeFeeMultiplier st \<noteq> 0
     \<and> d = c * FP_SCALING_FACTOR div cumulativeFeeMultiplier st"
  by (auto simp: convertToRawCollateral_def FixedPoint_div_def)

lemma removeCollateral_Inr:
  "removeCollateral st raw amt = Inr (raw', removed) \<longleftrightarrow>
     (\<exists>g d g'. getFeeAdjustedCollateral st raw = Inr g \<and> convertToRawCollateral st amt = Inr d
        \<and> d \<le> raw \<and> raw' = raw - d \<and> getFeeAdjustedCollateral st raw' = Inr g'
        \<and> g' \<le> g \<and> removed = g - g')"
  by (auto simp: removeCollateral_def bindE_eq_Inr FixedPoint_sub_def split: if_splits)

lemma addCollateral_Inr:
  "addCollateral st raw amt = Inr (raw', added) \<longleftrightarrow>
     (\<exists>g d g'. getFeeAdjustedCollateral st raw = Inr g \<and> convertToRawCollateral st amt = Inr d
        \<and> raw + d \<le> UINT_MAX \<and> raw' = raw + d \<and> getFeeAdjustedCollateral st raw' = Inr g'
        \<and> g \<le> g' \<and> added = g' - g)"
  by (auto simp: addCollateral_def bindE_eq_Inr FixedPoint_sub_def FixedPoint_add_def split: if_splits)

lemma getFeeAdjustedCollateral_setPosition [simp]:
  "getFeeAdjustedCollateral (setPosition st a p) raw = getFeeAdjustedCollateral st raw"
  by (simp add: getFeeAdjustedCollateral_def setPosition_def)

lemma convertToRawCollateral_setPosition [simp]:
  "convertToRawCollateral (setPosition st a p) c = convertToRawCollateral st c"
  by (simp add: convertToRawCollateral_def setPosition_def)

lemma removeCollateral_setPosition [simp]:
  "removeCollateral (setPosition st a p) raw c = removeCollateral st raw c"
  by (simp add: removeCollateral_def)

lemma setPosition_sel [simp]:
  "positions (setPosition st a p) = (positions st)(a := p)"
  "totalTokensOutstanding (setPosition st a p) = totalTokensOutstanding st"
  "rawTotalPositionCollateral (setPosition st a p) = rawTotalPositionCollateral st"
  "cumulativeFeeMultiplier (setPosition st a p) = cumulativeFeeMultiplier st"
  by (simp_all add: setPosition_def)

lemma incrementCollateralBalances_Inr:
  "incrementCollateralBalances st s amt = Inr (st', added) \<Longrightarrow>
   \<exists>d. convertToRawCollateral st amt = Inr d
     \<and> st' = st\<lparr>positions := (positions st)(s := (positions st s)
                 \<lparr>rawCollateral := rawCollateral (positions st s) + d\<rparr>),
               rawTotalPositionCollateral := rawTotalPositionCollateral st + d\<rparr>
     \<and> (rawTotalPositionCollateral st + d) * cumulativeFeeMultiplier st \<le> UINT_MAX"
  by (auto simp: incrementCollateralBalances_def bindE_eq_Inr addCollateral_Inr setPosition_def
        getFeeAdjustedCollateral_Inr)

lemma decrementCollateralBalances_Inr:
  "decrementCollateralBalances st s amt = Inr (st', removed) \<Longrightarrow>
   \<exists>d g g'. convertToRawCollateral st amt = Inr d
     \<and> d \<le> rawCollateral (positions st s) \<and> d \<le> rawTotalPositionCollateral st
     \<and> st' = st\<lparr>positions := (positions st)(s := (positions st s)
                 \<lparr>rawCollateral := rawCollateral (positions st s) - d\<rparr>),
               rawTotalPositionCollateral := rawTotalPositionCollateral st - d\<rparr>
     \<and> getFeeAdjustedCollateral st (rawTotalPositionCollateral st) = Inr g
     \<and> getFeeAdjustedCollateral st (rawTotalPositionCollateral st - d) = Inr g'
     \<and> removed = g - g'"
  by (auto simp: decrementCollateralBalances_def bindE_eq_Inr removeCollateral_Inr setPosition_def)

lemma decrementCollateralBalancesCheckGCR_Inr:
  "decrementCollateralBalancesCheckGCR st s amt = Inr (st', removed) \<Longrightarrow>
   \<exists>d g g'. convertToRawCollateral st amt = Inr d
     \<and> d \<le> rawCollateral (positions st s) \<and> d \<le> rawTotalPositionCollateral st
     \<and> st' = st\<lparr>positions := (positions st)(s := (positions st s)
                 \<lparr>rawCollateral := rawCollateral (positions st s) - d\<rparr>),
               rawTotalPositionCollateral := rawTotalPositionCollateral st - d\<rparr>
     \<and> getFeeAdjustedCollateral st (rawTotalPositionCollateral st) = Inr g
     \<and> getFeeAdjustedCollateral st (rawTotalPositionCollateral st - d) = Inr g'
     \<and> removed = g - g'
     \<and> checkPositionCollateralization (setPosition st s ((positions st s)
                 \<lparr>rawCollateral := rawCollateral (positions st s) - d\<rparr>))
          ((positions st s)\<lparr>rawCollateral := rawCollateral (positions st s) - d\<rparr>) = Inr True"
  by (clarsimp simp: decrementCollateralBalancesCheckGCR_def bindE_eq_Inr removeCollateral_Inr Let_def)

lemma getFeeAdjustedCollateral_pos:
  "getFeeAdjustedCollateral st raw = Inr c \<Longrightarrow> 0 < c \<Longrightarrow> 0 < raw"
  by (cases "raw = 0") (auto simp: getFeeAdjustedCollateral_Inr)

lemma emptyPosition_sel [simp]:
  "tokensOutstanding emptyPosition = 0"
  "withdrawalRequestPassTimestamp emptyPosition = 0"
  "withdrawalRequestAmount emptyPosition = 0"
  "rawCollateral emptyPosition = 0"
  "transferPositionRequestPassTimestamp emptyPosition = 0"
  by (simp_all add: emptyPosition_def)

lemma create_shape:
  "create cfg s c n st = Inr (st', effs) \<Longrightarrow> positionUpdate cfg (Create s c n) st s st'"
  apply (clarsimp simp: create_def bindE_eq_Inr Let_def FixedPoint_add_def split: if_splits
       dest!: incrementCollateralBalances_Inr)
  apply (auto simp: positionUpdate_def setPosition_def)
  done

lemma depositTo_shape:
  "depositTo x s c st = Inr (st', effs) \<Longrightarrow> positionUpdate cfg op st s st'"
  apply (clarsimp simp: depositTo_def bindE_eq_Inr getPositionData_Inr
       dest!: incrementCollateralBalances_Inr)
  apply (auto simp: positionUpdate_def dest: getFeeAdjustedCollateral_pos)
  done

lemma withdraw_shape:
  "withdraw s c st = Inr (st', w, effs) \<Longrightarrow> positionUpdate cfg (Withdraw s c) st s st'"
  apply (clarsimp simp: withdraw_def bindE_eq_Inr getPositionData_Inr
       dest!: decrementCollateralBalancesCheckGCR_Inr)
  apply (auto simp: positionUpdate_def dest: getFeeAdjustedCollateral_pos)
  done

lemma requestWithdrawal_shape:
  "requestWithdrawal cfg now s c st = Inr (st', effs) \<Longrightarrow> positionUpdate cfg (RequestWithdrawal s c) st s st'"
  apply (clarsimp simp: requestWithdrawal_def bindE_eq_Inr getPositionData_Inr)
  apply (auto simp: positionUpdate_def dest: getFeeAdjustedCollateral_pos)
  done

lemma withdrawPassedRequest_shape:
  "withdrawPassedRequest now s st = Inr (st', w, effs) \<Longrightarrow> positionUpdate cfg (WithdrawPassedRequest s) st s st'"
  apply (clarsimp simp: withdrawPassedRequest_def bindE_eq_Inr getPositionData_Inr Let_def
       dest!: decrementCollateralBalances_Inr)
  apply (auto simp: positionUpdate_def resetWithdrawalRequest_def dest: getFeeAdjustedCollateral_pos)
  done

lemma cancelWithdrawal_shape:
  "cancelWithdrawal s st = Inr (st', effs) \<Longrightarrow> positionUpdate cfg (CancelWithdrawal s) st s st'"
  apply (clarsimp simp: cancelWithdrawal_def bindE_eq_Inr getPositionData_Inr)
  apply (auto simp: positionUpdate_def resetWithdrawalRequest_def dest: getFeeAdjustedCollateral_pos)
  done

lemma requestTransferPosition_shape:
  "requestTransferPosition cfg now s st = Inr (st', effs) \<Longrightarrow> positionUpdate cfg (RequestTransferPosition s) st s st'"
  apply (clarsimp simp: requestTransferPosition_def bindE_eq_Inr getPositionData_Inr)
  apply (auto simp: positionUpdate_def dest: getFeeAdjustedCollateral_pos)
  done

lemma cancelTransferPosition_shape:
  "cancelTransferPosition s st = Inr (st', effs) \<Longrightarrow> positionUpdate cfg (CancelTransferPosition s) st s st'"
  apply (clarsimp simp: cancelTransferPosition_def bindE_eq_Inr getPositionData_Inr)
  apply (auto simp: positionUpdate_def dest: getFeeAdjustedCollateral_pos)
  done

lemma redeem_all_Inr:
  "redeem cfg s n st = Inr (st', w, effs) \<Longrightarrow> n = tokensOutstanding (positions st s) \<Longrightarrow>
   deleteSponsorPosition st s = Inr (st', w)"
  by (auto simp: redeem_def bindE_eq_Inr getPositionData_Inr)

lemma redeem_part_Inr:
  "redeem cfg s n st = Inr (st', w, effs) \<Longrightarrow> n \<noteq> tokensOutstanding (positions st s) \<Longrightarrow>
   \<exists>st1 c. decrementCollateralBalances st s c = Inr (st1, w)
     \<and> n < tokensOutstanding (positions st s)
     \<and> minSponsorTokens cfg \<le> tokensOutstanding (positions st s) - n
     \<and> n \<le> totalTokensOutstanding st
     \<and> (\<exists>c. getFeeAdjustedCollateral st (rawCollateral (positions st s)) = Inr c \<and> 0 < c)
     \<and> st' = (setPosition st1 s ((positions st1 s)
                 \<lparr>tokensOutstanding := tokensOutstanding (positions st s) - n\<rparr>))
               \<lparr>totalTokensOutstanding := totalTokensOutstanding st - n\<rparr>"
  apply (clarsimp simp: redeem_def bindE_eq_Inr getPositionData_Inr FixedPoint_sub_def
      split: if_splits)
  apply (frule decrementCollateralBalances_Inr)
  apply auto
  done

lemma redeem_shape:
  "redeem cfg s n st = Inr (st', w, effs) \<Longrightarrow> positionUpdate cfg (Redeem s n) st s st'"
proof (cases "n = tokensOutstanding (positions st s)")
  case True
  assume "redeem cfg s n st = Inr (st', w, effs)"
  with True have "deleteSponsorPosition st s = Inr (st', w)"
    by (rule redeem_all_Inr[rotated])
  with True show ?thesis
    by (auto simp: positionUpdate_def dest!: deleteSponsorPosition_Inr)
next
  case False
  assume "redeem cfg s n st = Inr (st', w, effs)"
  from redeem_part_Inr[OF this False] show ?thesis
    by (auto simp: positionUpdate_def dest!: decrementCollateralBalances_Inr)
qed

lemma transfer_Inr:
  "transferPositionPassedRequest now s new st = Inr (st', effs) \<longleftrightarrow>
     (\<exists>c. getFeeAdjustedCollateral st (rawCollateral (positions st s)) = Inr c \<and> 0 < c)
     \<and> withdrawalRequestPassTimestamp (positions st s) = 0
     \<and> getFeeAdjustedCollateral st (rawCollateral (positions st new)) = Inr 0
     \<and> transferPositionRequestPassTimestamp (positions st s) \<noteq> 0
     \<and> transferPositionRequestPassTimestamp (positions st s) \<le> now
     \<and> st' = st\<lparr>positions := (positions st)
                (new := (positions st s)\<lparr>transferPositionRequestPassTimestamp := 0\<rparr>,
                 s := emptyPosition)\<rparr>
     \<and> effs = []"
  by (auto simp: transferPositionPassedRequest_def noPendingWithdrawal_def bindE_eq_Inr
      getPositionData_Inr Let_def setPosition_def)

lemma sum_fun_upd:
  fixes h :: "'b \<Rightarrow> nat" and f :: "'a::finite \<Rightarrow> 'b"
  shows "(\<Sum>x\<in>UNIV. h ((f(a := v)) x)) + h (f a) = (\<Sum>x\<in>UNIV. h (f x)) + h v"
proof -
  have 1: "(\<Sum>x\<in>UNIV. h ((f(a := v)) x)) = h v + (\<Sum>x\<in>UNIV - {a}. h ((f(a := v)) x))"
    by (subst sum.remove[of UNIV a]) simp_all
  have 2: "(\<Sum>x\<in>UNIV. h (f x)) = h (f a) + (\<Sum>x\<in>UNIV - {a}. h (f x))"
    by (subst sum.remove[of UNIV a]) simp_all
  have 3: "(\<Sum>x\<in>UNIV - {a}. h ((f(a := v)) x)) = (\<Sum>x\<in>UNIV - {a}. h (f x))"
    by (rule sum.cong) simp_all
  from 1 2 3 show ?thesis by simp
qed

lemma sumRawCollateral_upd:
  "positions st' = (positions st)(a := p) \<Longrightarrow>
   sumRawCollateral st' + rawCollateral (positions st a) = sumRawCollateral st + rawCollateral p"
  by (simp only: sumRawCollateral_def sum_fun_upd)

lemma execOp_shape:
  "execOp cfg now op st = Inr st' \<Longrightarrow>
     (\<exists>a. positionUpdate cfg op st a st')
   \<or> (\<exists>s new. op = TransferPositionPassedRequest s new
        \<and> transferPositionPassedRequest now s new st = Inr (st', []))
   \<or> (\<exists>m. op = ChargeFees m \<and> m \<le> cumulativeFeeMultiplier st
        \<and> st' = st\<lparr>cumulativeFeeMultiplier := m\<rparr>)"
proof (cases op)
  case (Create s c n)
  assume "execOp cfg now op st = Inr st'"
  with Create show ?thesis by (auto simp: bindE_eq_Inr dest: create_shape)
next
  case (DepositTo x s c)
  assume "execOp cfg now op st = Inr st'"
  with DepositTo show ?thesis by (auto simp: bindE_eq_Inr dest: depositTo_shape)
next
  case (Deposit s c)
  assume "execOp cfg now op st = Inr st'"
  with Deposit show ?thesis by (auto simp: bindE_eq_Inr deposit_def dest: depositTo_shape)
next
  case (Withdraw s c)
  assume "execOp cfg now op st = Inr st'"
  with Withdraw show ?thesis by (auto simp: bindE_eq_Inr dest: withdraw_shape)
next
  case (RequestWithdrawal s c)
  assume "execOp cfg now op st = Inr st'"
  with RequestWithdrawal show ?thesis by (auto simp: bindE_eq_Inr dest: requestWithdrawal_shape)
next
  case (WithdrawPassedRequest s)
  assume "execOp cfg now op st = Inr st'"
  with WithdrawPassedRequest show ?thesis by (auto simp: bindE_eq_Inr dest: withdrawPassedRequest_shape)
next
  case (CancelWithdrawal s)
  assume "execOp cfg now op st = Inr st'"
  with CancelWithdrawal show ?thesis by (auto simp: bindE_eq_Inr dest: cancelWithdrawal_shape)
next
  case (RequestTransferPosition s)
  assume "execOp cfg now op st = Inr st'"
  with RequestTransferPosition show ?thesis by (auto simp: bindE_eq_Inr dest: requestTransferPosition_shape)
next
  case (TransferPositionPassedRequest s n)
  assume "execOp cfg now op st = Inr st'"
  with TransferPositionPassedRequest show ?thesis by (auto simp: bindE_eq_Inr transfer_Inr)
next
  case (CancelTransferPosition s)
  assume "execOp cfg now op st = Inr st'"
  with CancelTransferPosition show ?thesis by (auto simp: bindE_eq_Inr dest: cancelTransferPosition_shape)
next
  case (Redeem s n)
  assume "execOp cfg now op st = Inr st'"
  with Redeem show ?thesis by (auto simp: bindE_eq_Inr dest: redeem_shape)
next
  case (ChargeFees m)
  assume "execOp cfg now op st = Inr st'"
  with ChargeFees show ?thesis by (auto simp: chargeFees_def bindE_eq_Inr)
qed

section \<open>The invariant of the ledger\<close>

lemma positionUpdate_other:
  "positionUpdate cfg op st a st' \<Longrightarrow> x \<noteq> a \<Longrightarrow> positions st' x = positions st x"
proof -
  assume u: "positionUpdate cfg op st a st'" and x: "x \<noteq> a"
  from u have "positions st' = (positions st)(a := positions st' a)"
    by (simp add: positionUpdate_def)
  then have "positions st' x = ((positions st)(a := positions st' a)) x"
    by (rule arg_cong)
  with x show ?thesis by simp
qed

lemma positionUpdate_inv:
  assumes inv: "ledgerInv cfg st" and u: "positionUpdate cfg op st a st'"
  shows "ledgerInv cfg st'"
proof -
  let ?m = "cumulativeFeeMultiplier st"
  from u have pos: "positions st' = (positions st)(a := positions st' a)"
    and m: "cumulativeFeeMultiplier st' = ?m"
    and tot: "rawTotalPositionCollateral st' + rawCollateral (positions st a)
         = rawTotalPositionCollateral st + rawCollateral (positions st' a)"
    and bound: "rawTotalPositionCollateral st' \<le> rawTotalPositionCollateral st
        \<or> rawTotalPositionCollateral st' * ?m \<le> UINT_MAX"
    by (simp_all add: positionUpdate_def)
  from sumRawCollateral_upd[OF pos]
  have sum: "sumRawCollateral st' + rawCollateral (positions st a)
      = sumRawCollateral st + rawCollateral (positions st' a)" .
  from inv have i1: "sumRawCollateral st \<le> rawTotalPositionCollateral st"
    and i2: "?m \<le> FP_SCALING_FACTOR"
    and i3: "?m = FP_SCALING_FACTOR \<longrightarrow> sumRawCollateral st = rawTotalPositionCollateral st"
    and i4: "rawTotalPositionCollateral st * ?m \<le> UINT_MAX"
    and i5: "\<And>x. 0 < tokensOutstanding (positions st x)
            \<Longrightarrow> minSponsorTokens cfg \<le> tokensOutstanding (positions st x)"
    and i6: "\<And>x. 0 < minSponsorTokens cfg \<Longrightarrow> 0 < rawCollateral (positions st x)
                 \<Longrightarrow> 0 < tokensOutstanding (positions st x)"
    by (simp_all add: ledgerInv_def)
  have g1: "sumRawCollateral st' \<le> rawTotalPositionCollateral st'"
    using sum tot i1 by linarith
  have g3: "?m = FP_SCALING_FACTOR \<longrightarrow> sumRawCollateral st' = rawTotalPositionCollateral st'"
    using sum tot i3 by auto
  have g4: "rawTotalPositionCollateral st' * ?m \<le> UINT_MAX"
  proof (cases "rawTotalPositionCollateral st' \<le> rawTotalPositionCollateral st")
    case True
    then have "rawTotalPositionCollateral st' * ?m \<le> rawTotalPositionCollateral st * ?m"
      by (rule mult_le_mono1)
    with i4 show ?thesis by linarith
  next
    case False
    with bound show ?thesis by simp
  qed
  have g5: "0 < tokensOutstanding (positions st' x)
            \<Longrightarrow> minSponsorTokens cfg \<le> tokensOutstanding (positions st' x)" for x
  proof (cases "x = a")
    case False
    assume "0 < tokensOutstanding (positions st' x)"
    with positionUpdate_other[OF u False] i5[of x] show ?thesis by simp
  next
    case True
    assume "0 < tokensOutstanding (positions st' x)"
    with True u i5[of a] show ?thesis
      by (auto simp: positionUpdate_def)
  qed
  have g6: "0 < minSponsorTokens cfg \<Longrightarrow> 0 < rawCollateral (positions st' x)
                 \<Longrightarrow> 0 < tokensOutstanding (positions st' x)" for x
  proof (cases "x = a")
    case False
    assume "0 < minSponsorTokens cfg" "0 < rawCollateral (positions st' x)"
    with positionUpdate_other[OF u False] i6[of x] show ?thesis by simp
  next
    case True
    assume "0 < minSponsorTokens cfg" "0 < rawCollateral (positions st' x)"
    with True u i6[of a] show ?thesis
      by (auto simp: positionUpdate_def)
  qed
  from g1 i2 g3 g4 g5 g6 m show ?thesis
    by (simp add: ledgerInv_def)
qed

lemma getFeeAdjustedCollateral_unit:
  "cumulativeFeeMultiplier st = FP_SCALING_FACTOR \<Longrightarrow> getFeeAdjustedCollateral st raw = Inr c
   \<Longrightarrow> c = raw"
  by (simp add: getFeeAdjustedCollateral_Inr)

lemma transfer_inv:
  assumes inv: "ledgerInv cfg st"
    and t: "transferPositionPassedRequest now s new st = Inr (st', effs)"
  shows "ledgerInv cfg st'"
proof -
  let ?p = "(positions st s)\<lparr>transferPositionRequestPassTimestamp := 0\<rparr>"
  from t obtain c where c: "getFeeAdjustedCollateral st (rawCollateral (positions st s)) = Inr c"
      "0 < c"
    and z: "getFeeAdjustedCollateral st (rawCollateral (positions st new)) = Inr 0"
    and st': "st' = st\<lparr>positions := (positions st)(new := ?p, s := emptyPosition)\<rparr>"
    by (auto simp: transfer_Inr)
  from c have rs: "0 < rawCollateral (positions st s)"
    by (rule getFeeAdjustedCollateral_pos)
  from c z have ne: "s \<noteq> new" by auto
  define mid where "mid = st\<lparr>positions := (positions st)(new := ?p)\<rparr>"
  have s1: "sumRawCollateral mid + rawCollateral (positions st new)
      = sumRawCollateral st + rawCollateral (positions st s)"
    using sumRawCollateral_upd[of mid st new ?p] by (simp add: mid_def)
  have s2: "sumRawCollateral st' + rawCollateral (positions mid s)
      = sumRawCollateral mid + rawCollateral emptyPosition"
    using sumRawCollateral_upd[of st' mid s emptyPosition] by (simp add: mid_def st')
  from ne have ms: "positions mid s = positions st s" by (simp add: mid_def)
  from s1 s2 ms have sum: "sumRawCollateral st' + rawCollateral (positions st new) = sumRawCollateral st"
    by simp
  from inv have i1: "sumRawCollateral st \<le> rawTotalPositionCollateral st"
    and i2: "cumulativeFeeMultiplier st \<le> FP_SCALING_FACTOR"
    and i3: "cumulativeFeeMultiplier st = FP_SCALING_FACTOR \<longrightarrow> sumRawCollateral st = rawTotalPositionCollateral st"
    and i4: "rawTotalPositionCollateral st * cumulativeFeeMultiplier st \<le> UINT_MAX"
    and i5: "\<And>x. 0 < tokensOutstanding (positions st x)
            \<Longrightarrow> minSponsorTokens cfg \<le> tokensOutstanding (positions st x)"
    and i6: "\<And>x. 0 < minSponsorTokens cfg \<Longrightarrow> 0 < rawCollateral (positions st x)
                 \<Longrightarrow> 0 < tokensOutstanding (positions st x)"
    by (simp_all add: ledgerInv_def)
  have g1: "sumRawCollateral st' \<le> rawTotalPositionCollateral st'"
    using sum i1 by (simp add: st')
  have g3: "cumulativeFeeMultiplier st' = FP_SCALING_FACTOR \<longrightarrow> sumRawCollateral st' = rawTotalPositionCollateral st'"
  proof
    assume "cumulativeFeeMultiplier st' = FP_SCALING_FACTOR"
    then have u: "cumulativeFeeMultiplier st = FP_SCALING_FACTOR" by (simp add: st')
    from getFeeAdjustedCollateral_unit[OF u z] have "rawCollateral (positions st new) = 0" by simp
    with sum i3 u show "sumRawCollateral st' = rawTotalPositionCollateral st'"
      by (simp add: st')
  qed
  have g5: "0 < tokensOutstanding (positions st' x)
            \<Longrightarrow> minSponsorTokens cfg \<le> tokensOutstanding (positions st' x)" for x
    using i5[of x] i5[of s] by (auto simp: st' split: if_splits)
  have g6: "0 < minSponsorTokens cfg \<Longrightarrow> 0 < rawCollateral (positions st' x)
                 \<Longrightarrow> 0 < tokensOutstanding (positions st' x)" for x
    using i6[of x] i6[of s] by (auto simp: st' split: if_splits)
  from g1 i2 g3 i4 g5 g6 show ?thesis
    by (simp add: ledgerInv_def st')
qed

lemma sumRawCollateral_multiplier [simp]:
  "sumRawCollateral (st\<lparr>cumulativeFeeMultiplier := m\<rparr>) = sumRawCollateral st"
  by (simp add: sumRawCollateral_def)

lemma chargeFees_inv:
  assumes inv: "ledgerInv cfg st" and m: "m \<le> cumulativeFeeMultiplier st"
  shows "ledgerInv cfg (st\<lparr>cumulativeFeeMultiplier := m\<rparr>)"
proof -
  from m have "rawTotalPositionCollateral st * m
      \<le> rawTotalPositionCollateral st * cumulativeFeeMultiplier st"
    by (rule mult_le_mono2)
  moreover from inv have "rawTotalPositionCollateral st * cumulativeFeeMultiplier st \<le> UINT_MAX"
    by (simp add: ledgerInv_def)
  ultimately have "rawTotalPositionCollateral st * m \<le> UINT_MAX"
    by (rule order_trans)
  with inv m show ?thesis
    by (auto simp: ledgerInv_def)
qed

lemma execOp_inv:
  "ledgerInv cfg st \<Longrightarrow> execOp cfg now op st = Inr st' \<Longrightarrow> ledgerInv cfg st'"
  by (auto dest!: execOp_shape intro: positionUpdate_inv transfer_inv chargeFees_inv)

lemma emptyLedger_sum [simp]: "sumRawCollateral emptyLedger = 0"
  by (simp add: sumRawCollateral_def emptyLedger_def)

lemma emptyLedger_inv: "ledgerInv cfg emptyLedger"
  by (simp add: ledgerInv_def) (simp add: emptyLedger_def)

lemma runOps_inv_gen:
  "ledgerInv cfg st \<Longrightarrow> runOps cfg ops st = Inr st' \<Longrightarrow> ledgerInv cfg st'"
proof (induction ops arbitrary: st)
  case Nil
  then show ?case by simp
next
  case (Cons x ops)
  obtain now op where x: "x = (now, op)" by (cases x)
  from Cons.prems(2) x obtain st1 where 1: "execOp cfg now op st = Inr st1"
    and 2: "runOps cfg ops st1 = Inr st'"
    by (auto simp: bindE_eq_Inr)
  from execOp_inv[OF Cons.prems(1) 1] have "ledgerInv cfg st1" .
  from Cons.IH[OF this 2] show ?case .
qed

lemma runOps_inv: "runOps cfg ops emptyLedger = Inr st \<Longrightarrow> ledgerInv cfg st"
  by (rule runOps_inv_gen[OF emptyLedger_inv])

section \<open>The collateralization ratio of a position without tokens\<close>

text \<open>
  Claim C4. \<open>_getCollateralizationRatio\<close> returns zero, without dividing, when the token count
  is zero, whatever the collateral. Hence \<open>_checkCollateralization\<close> on a candidate without
  tokens does not depend on the candidate's collateral: when it accepts the resulting position
  of a \<open>create\<close> (whose marginal pair then has no tokens either), it accepts the marginal pair
  too, and more generally no marginal pair is then rejected. A candidate without tokens is
  accepted only when the global ratio itself is zero.
\<close>

theorem zero_token_candidate:
  "getCollateralizationRatio c 0 = Inr 0
   \<and> (checkCollateralization st c 0 = Inr True \<longrightarrow>
        checkCollateralization st a 0 = Inr True
        \<and> checkCollateralization st a n \<noteq> Inr False
        \<and> bindE (getFeeAdjustedCollateral st (rawTotalPositionCollateral st))
             (\<lambda>g. getCollateralizationRatio g (totalTokensOutstanding st)) = Inr 0)"
  by (auto simp: checkCollateralization_def bindE_eq_Inr getCollateralizationRatio_no_tokens)

theorem zero_token_candidate_witness:
  "checkCollateralization emptyLedger 7 0 = Inr True
   \<and> checkCollateralization emptyLedger 3 0 = Inr True
   \<and> checkCollateralization emptyLedger 3 2 \<noteq> Inr False
   \<and> checkCollateralization requestsLedger 7 0 = Inr False"
proof -
  have h: "checkCollateralization emptyLedger 7 0 = Inr True"
    by (simp add: checkCollateralization_def getCollateralizationRatio_def emptyLedger_def)
  have "checkCollateralization requestsLedger 7 0 = Inr False"
    by (simp add: checkCollateralization_def getCollateralizationRatio_def fee_defs arith_defs
        requestsLedger_def)
  with h zero_token_candidate [of 7 emptyLedger 3 2] show ?thesis
    by simp
qed

section \<open>Cancelling a request\<close>

text \<open>
  Claim C10. A successful \<open>cancelWithdrawal\<close> changes nothing but the caller's
  \<open>withdrawalRequestAmount\<close> and \<open>withdrawalRequestPassTimestamp\<close>, both set to zero; a
  successful \<open>cancelTransferPosition\<close> changes nothing but the caller's
  \<open>transferPositionRequestPassTimestamp\<close>, set to zero. The resulting ledger is the old one with
  that one struct updated in those fields, so the caller's tokens and raw collateral, every
  other position, both aggregates and the multiplier are the old ones; no token call is made.
\<close>

theorem cancel_frame:
  "(cancelWithdrawal s st = Inr (st', effs) \<longrightarrow>
      st' = st\<lparr>positions := (positions st)(s := (positions st s)
               \<lparr>withdrawalRequestAmount := 0, withdrawalRequestPassTimestamp := 0\<rparr>)\<rparr>
      \<and> effs = [])
   \<and> (cancelTransferPosition s st = Inr (st', effs) \<longrightarrow>
      st' = st\<lparr>positions := (positions st)(s := (positions st s)
               \<lparr>transferPositionRequestPassTimestamp := 0\<rparr>)\<rparr>
      \<and> effs = [])"
  by (auto simp: cancelWithdrawal_def cancelTransferPosition_def bindE_eq_Inr getPositionData_Inr
      setPosition_def resetWithdrawalRequest_def)

theorem cancel_frame_witness:
  "cancelWithdrawal 1 requestsLedger =
     Inr (requestsLedger\<lparr>positions := (positions requestsLedger)(1 := (positions requestsLedger 1)
            \<lparr>withdrawalRequestAmount := 0, withdrawalRequestPassTimestamp := 0\<rparr>)\<rparr>, [])
   \<and> cancelTransferPosition 1 requestsLedger =
     Inr (requestsLedger\<lparr>positions := (positions requestsLedger)(1 := (positions requestsLedger 1)
            \<lparr>transferPositionRequestPassTimestamp := 0\<rparr>)\<rparr>, [])"
proof -
  have "\<exists>x e. cancelWithdrawal 1 requestsLedger = Inr (x, e)"
    by (simp add: cancelWithdrawal_def getPositionData_def fee_defs arith_defs requestsLedger_def)
  then obtain x e where h1: "cancelWithdrawal 1 requestsLedger = Inr (x, e)"
    by blast
  have "\<exists>y f. cancelTransferPosition 1 requestsLedger = Inr (y, f)"
    by (simp add: cancelTransferPosition_def getPositionData_def fee_defs arith_defs
        requestsLedger_def)
  then obtain y f where h2: "cancelTransferPosition 1 requestsLedger = Inr (y, f)"
    by blast
  from h1 h2 cancel_frame [of 1 requestsLedger x e] cancel_frame [of 1 requestsLedger y f]
  show ?thesis
    by simp
qed

section \<open>Redeeming every token\<close>

text \<open>
  Claim C7. A successful \<open>redeem\<close> of exactly the caller's \<open>tokensOutstanding\<close> deletes the
  position: the caller's struct reads as the all-zero struct afterwards, and a second
  \<open>redeem\<close> by the caller, for any number of tokens, reverts with "Position has no collateral".
\<close>

theorem redeem_all_deletes:
  "redeem cfg s n st = Inr (st', w, effs) \<Longrightarrow> n = tokensOutstanding (positions st s) \<Longrightarrow>
   positions st' s = emptyPosition
   \<and> tokensOutstanding (positions st' s) = 0 \<and> rawCollateral (positions st' s) = 0
   \<and> redeem cfg s n' st' = Inl PositionHasNoCollateral"
proof -
  assume r: "redeem cfg s n st = Inr (st', w, effs)" and n: "n = tokensOutstanding (positions st s)"
  from r n obtain r' where "deleteSponsorPosition st s = Inr (st', r')"
    by (auto simp: redeem_def bindE_eq_Inr getPositionData_Inr)
  then have p: "positions st' s = emptyPosition"
    by (auto dest!: deleteSponsorPosition_Inr)
  then have "getFeeAdjustedCollateral st' (rawCollateral (positions st' s)) = Inr 0"
    by (simp add: emptyPosition_def)
  then have "redeem cfg s n' st' = Inl PositionHasNoCollateral"
    by (simp add: redeem_def noPendingWithdrawal_no_collateral)
  with p show ?thesis
    by (simp add: emptyPosition_def)
qed

theorem redeem_all_deletes_witness:
  "redeem demoConfig 1 10 (requestsLedger\<lparr>positions := (positions requestsLedger)(1 :=
       (positions requestsLedger 1)\<lparr>withdrawalRequestAmount := 0,
          withdrawalRequestPassTimestamp := 0\<rparr>)\<rparr>)
     = Inr (emptyLedger, 15, [CollateralTransfer 1 15, TokenTransferFrom 1 10, TokenBurn 10])
   \<and> positions emptyLedger 1 = emptyPosition
   \<and> redeem demoConfig 1 4 emptyLedger = Inl PositionHasNoCollateral"
proof -
  have h: "redeem demoConfig 1 10 (requestsLedger\<lparr>positions := (positions requestsLedger)(1 :=
       (positions requestsLedger 1)\<lparr>withdrawalRequestAmount := 0,
          withdrawalRequestPassTimestamp := 0\<rparr>)\<rparr>)
     = Inr (emptyLedger, 15, [CollateralTransfer 1 15, TokenTransferFrom 1 10, TokenBurn 10])"
    by (simp add: redeem_def internal_defs fee_defs arith_defs demoConfig_def requestsLedger_def
        emptyLedger_def emptyPosition_def Let_def fun_upd_idem)
  from redeem_all_deletes [OF h, of 4] h show ?thesis
    by (simp add: requestsLedger_def)
qed

section \<open>Transferring a position\<close>

text \<open>
  Claim C8, amended. \<open>transferPositionPassedRequest\<close> succeeds exactly when the caller's
  position holds fee-adjusted collateral (the guard of \<open>_getPositionData\<close>, which the claim
  leaves out), the caller has no pending withdrawal, the new sponsor's fee-adjusted collateral is
  zero, and the caller's transfer request has a nonzero pass timestamp that has passed. On
  success the caller's struct, with the transfer request cleared, is the new sponsor's struct,
  the caller's struct is the all-zero one, every other position, both aggregates and the
  multiplier are unchanged, and no token call is made.
\<close>

theorem transfer_exactly_when:
  "((\<exists>r. transferPositionPassedRequest now s new st = Inr r) \<longleftrightarrow>
      (\<exists>c. getFeeAdjustedCollateral st (rawCollateral (positions st s)) = Inr c \<and> 0 < c)
      \<and> withdrawalRequestPassTimestamp (positions st s) = 0
      \<and> getFeeAdjustedCollateral st (rawCollateral (positions st new)) = Inr 0
      \<and> transferPositionRequestPassTimestamp (positions st s) \<noteq> 0
      \<and> transferPositionRequestPassTimestamp (positions st s) \<le> now)
   \<and> (transferPositionPassedRequest now s new st = Inr (st', effs) \<longrightarrow>
      s \<noteq> new
      \<and> positions st' new = (positions st s)\<lparr>transferPositionRequestPassTimestamp := 0\<rparr>
      \<and> positions st' s = emptyPosition
      \<and> (\<forall>a. a \<noteq> s \<and> a \<noteq> new \<longrightarrow> positions st' a = positions st a)
      \<and> totalTokensOutstanding st' = totalTokensOutstanding st
      \<and> rawTotalPositionCollateral st' = rawTotalPositionCollateral st
      \<and> cumulativeFeeMultiplier st' = cumulativeFeeMultiplier st
      \<and> effs = [])"
  by (auto simp: transfer_Inr)

theorem transfer_exactly_when_witness:
  "runOps demoConfig [(1, Create 1 15 10), (1, RequestTransferPosition 1)] emptyLedger
     = Inr transferLedger
   \<and> transferPositionPassedRequest 12 1 2 transferLedger = Inr (transferredLedger, [])
   \<and> positions transferredLedger 2
       = (positions transferLedger 1)\<lparr>transferPositionRequestPassTimestamp := 0\<rparr>
   \<and> positions transferredLedger 1 = emptyPosition
   \<and> positions transferredLedger 3 = positions transferLedger 3
   \<and> totalTokensOutstanding transferredLedger = totalTokensOutstanding transferLedger
   \<and> rawTotalPositionCollateral transferredLedger = rawTotalPositionCollateral transferLedger"
proof -
  have r: "runOps demoConfig [(1, Create 1 15 10), (1, RequestTransferPosition 1)] emptyLedger
     = Inr transferLedger"
    by (simp add: eval_defs transferLedger_def)
  have c: "(\<exists>c. getFeeAdjustedCollateral transferLedger
              (rawCollateral (positions transferLedger 1)) = Inr c \<and> 0 < c)
      \<and> withdrawalRequestPassTimestamp (positions transferLedger 1) = 0
      \<and> getFeeAdjustedCollateral transferLedger
              (rawCollateral (positions transferLedger 2)) = Inr 0
      \<and> transferPositionRequestPassTimestamp (positions transferLedger 1) \<noteq> 0
      \<and> transferPositionRequestPassTimestamp (positions transferLedger 1) \<le> 12"
    by (simp add: transferLedger_def fee_defs arith_defs emptyPosition_def)
  with transfer_exactly_when [of 12 1 2 transferLedger]
  obtain x where x: "transferPositionPassedRequest 12 1 2 transferLedger = Inr x"
    by blast
  have e: "transferPositionPassedRequest 12 1 2 transferLedger = Inr (transferredLedger, [])"
    by (simp add: eval_defs transferLedger_def transferredLedger_def fun_eq_iff)
  from transfer_exactly_when [of 12 1 2 transferLedger transferredLedger "[]"] e
  have "positions transferredLedger 2
       = (positions transferLedger 1)\<lparr>transferPositionRequestPassTimestamp := 0\<rparr>
   \<and> positions transferredLedger 1 = emptyPosition
   \<and> positions transferredLedger 3 = positions transferLedger 3
   \<and> totalTokensOutstanding transferredLedger = totalTokensOutstanding transferLedger
   \<and> rawTotalPositionCollateral transferredLedger = rawTotalPositionCollateral transferLedger"
    by simp
  with r e show ?thesis by simp
qed

text \<open>
  The claim as stated fails: after sponsor 1 has withdrawn all its collateral through a
  withdrawal request, its transfer request has passed, it has no pending withdrawal and sponsor
  2 has no collateral, yet the transfer reverts with "Position has no collateral".
\<close>

theorem transfer_exactly_when_counterexample:
  "runOps demoConfig
     [(1, Create 1 10 5), (1, RequestTransferPosition 1), (2, RequestWithdrawal 1 10),
      (12, WithdrawPassedRequest 1)] emptyLedger = Inr drainedLedger
   \<and> transferPositionRequestPassTimestamp (positions drainedLedger 1) = 11
   \<and> withdrawalRequestPassTimestamp (positions drainedLedger 1) = 0
   \<and> getFeeAdjustedCollateral drainedLedger (rawCollateral (positions drainedLedger 2)) = Inr 0
   \<and> transferPositionPassedRequest 13 1 2 drainedLedger = Inl PositionHasNoCollateral"
  by (simp add: eval_defs drainedLedger_def)

section \<open>A sponsor without collateral\<close>

lemma getFeeAdjustedCollateral_lower:
  assumes z: "getFeeAdjustedCollateral st raw = Inr 0" and m: "m \<le> cumulativeFeeMultiplier st"
  shows "getFeeAdjustedCollateral (st\<lparr>cumulativeFeeMultiplier := m\<rparr>) raw = Inr 0"
proof -
  from m have le: "raw * m \<le> raw * cumulativeFeeMultiplier st"
    by (rule mult_le_mono2)
  from z have b: "raw * cumulativeFeeMultiplier st \<le> UINT_MAX"
    and d: "raw * cumulativeFeeMultiplier st div FP_SCALING_FACTOR = 0"
    by (simp_all add: getFeeAdjustedCollateral_Inr)
  from le have "raw * m div FP_SCALING_FACTOR \<le> raw * cumulativeFeeMultiplier st div FP_SCALING_FACTOR"
    by (rule div_le_mono)
  with d have "raw * m div FP_SCALING_FACTOR = 0" by simp
  moreover from le b have "raw * m \<le> UINT_MAX" by (rule order_trans)
  ultimately show ?thesis
    by (simp add: getFeeAdjustedCollateral_Inr)
qed

lemma getFeeAdjustedCollateral_same_multiplier:
  "cumulativeFeeMultiplier st' = cumulativeFeeMultiplier st \<Longrightarrow>
   getFeeAdjustedCollateral st' raw = getFeeAdjustedCollateral st raw"
  by (simp add: getFeeAdjustedCollateral_def)

text \<open>
  Claim C9, amended. When the fee-adjusted collateral of a sponsor is zero, every operation that
  reaches the sponsor's position through \<open>_getPositionData\<close> reverts with "Position has no
  collateral": \<open>depositTo\<close> and \<open>deposit\<close> (whatever the amount), \<open>withdraw\<close>,
  \<open>requestWithdrawal\<close>, \<open>withdrawPassedRequest\<close>, \<open>requestTransferPosition\<close>,
  \<open>transferPositionPassedRequest\<close>, \<open>cancelWithdrawal\<close>, \<open>cancelTransferPosition\<close> and
  \<open>redeem\<close>. A successful call after which the sponsor's fee-adjusted collateral is no longer
  zero is a \<open>create\<close> by the sponsor or a \<open>transferPositionPassedRequest\<close> of another sponsor
  to it; the claim names \<open>create\<close> only.
\<close>

theorem absent_sponsor:
  assumes z: "getFeeAdjustedCollateral st (rawCollateral (positions st s)) = Inr 0"
  shows "depositTo x s c st = Inl PositionHasNoCollateral
    \<and> deposit s c st = Inl PositionHasNoCollateral
    \<and> withdraw s c st = Inl PositionHasNoCollateral
    \<and> requestWithdrawal cfg now s c st = Inl PositionHasNoCollateral
    \<and> withdrawPassedRequest now s st = Inl PositionHasNoCollateral
    \<and> requestTransferPosition cfg now s st = Inl PositionHasNoCollateral
    \<and> transferPositionPassedRequest now s new st = Inl PositionHasNoCollateral
    \<and> cancelWithdrawal s st = Inl PositionHasNoCollateral
    \<and> cancelTransferPosition s st = Inl PositionHasNoCollateral
    \<and> redeem cfg s n st = Inl PositionHasNoCollateral
    \<and> (execOp cfg now op st = Inr st'
         \<and> getFeeAdjustedCollateral st' (rawCollateral (positions st' s)) \<noteq> Inr 0
       \<longrightarrow> (\<exists>c' n'. op = Create s c' n') \<or> (\<exists>y. op = TransferPositionPassedRequest y s))"
proof -
  note g = getPositionData_no_collateral [OF z] and p = noPendingWithdrawal_no_collateral [OF z]
  have fails: "depositTo x s c st = Inl PositionHasNoCollateral
    \<and> deposit s c st = Inl PositionHasNoCollateral
    \<and> withdraw s c st = Inl PositionHasNoCollateral
    \<and> requestWithdrawal cfg now s c st = Inl PositionHasNoCollateral
    \<and> withdrawPassedRequest now s st = Inl PositionHasNoCollateral
    \<and> requestTransferPosition cfg now s st = Inl PositionHasNoCollateral
    \<and> transferPositionPassedRequest now s new st = Inl PositionHasNoCollateral
    \<and> cancelWithdrawal s st = Inl PositionHasNoCollateral
    \<and> cancelTransferPosition s st = Inl PositionHasNoCollateral
    \<and> redeem cfg s n st = Inl PositionHasNoCollateral"
    by (simp add: op_defs g p)
  have enter: "(\<exists>c' n'. op = Create s c' n') \<or> (\<exists>y. op = TransferPositionPassedRequest y s)"
    if e: "execOp cfg now op st = Inr st'"
      and nz: "getFeeAdjustedCollateral st' (rawCollateral (positions st' s)) \<noteq> Inr 0"
  proof -
    from execOp_shape [OF e] consider
      (upd) a where "positionUpdate cfg op st a st'"
      | (tr) y new where "op = TransferPositionPassedRequest y new"
          "transferPositionPassedRequest now y new st = Inr (st', [])"
      | (fee) m where "op = ChargeFees m" "m \<le> cumulativeFeeMultiplier st"
          "st' = st\<lparr>cumulativeFeeMultiplier := m\<rparr>"
      by blast
    then show ?thesis
    proof cases
      case upd
      then have m: "cumulativeFeeMultiplier st' = cumulativeFeeMultiplier st"
        by (simp add: positionUpdate_def)
      show ?thesis
      proof (cases "a = s")
        case False
        then have "positions st' s = positions st s"
          using positionUpdate_other [OF upd] by simp
        with z nz getFeeAdjustedCollateral_same_multiplier [OF m] show ?thesis
          by simp
      next
        case True
        with upd z nz show ?thesis
          by (auto simp: positionUpdate_def)
      qed
    next
      case tr
      from tr(2) have st': "st' = st\<lparr>positions := (positions st)
                (new := (positions st y)\<lparr>transferPositionRequestPassTimestamp := 0\<rparr>,
                 y := emptyPosition)\<rparr>"
        by (simp add: transfer_Inr)
      have m: "cumulativeFeeMultiplier st' = cumulativeFeeMultiplier st"
        by (simp add: st')
      show ?thesis
      proof (cases "new = s")
        case True
        with tr(1) show ?thesis by simp
      next
        case False
        with z nz getFeeAdjustedCollateral_same_multiplier [OF m] show ?thesis
          by (cases "y = s") (simp_all add: st')
      qed
    next
      case fee
      with z nz getFeeAdjustedCollateral_lower [OF z fee(2)] show ?thesis
        by simp
    qed
  qed
  from fails enter show ?thesis
    by blast
qed

theorem absent_sponsor_witness:
  "getFeeAdjustedCollateral emptyLedger (rawCollateral (positions emptyLedger 1)) = Inr 0
   \<and> depositTo 2 1 5 emptyLedger = Inl PositionHasNoCollateral
   \<and> redeem demoConfig 1 0 emptyLedger = Inl PositionHasNoCollateral
   \<and> execOp demoConfig 1 (Create 1 15 10) emptyLedger = Inr
        (emptyLedger\<lparr>positions := (positions emptyLedger)(1 := emptyPosition
            \<lparr>rawCollateral := 15, tokensOutstanding := 10\<rparr>),
          rawTotalPositionCollateral := 15, totalTokensOutstanding := 10\<rparr>)"
proof -
  have z: "getFeeAdjustedCollateral emptyLedger (rawCollateral (positions emptyLedger 1)) = Inr 0"
    by (simp add: emptyLedger_def)
  have e: "execOp demoConfig 1 (Create 1 15 10) emptyLedger = Inr
        (emptyLedger\<lparr>positions := (positions emptyLedger)(1 := emptyPosition
            \<lparr>rawCollateral := 15, tokensOutstanding := 10\<rparr>),
          rawTotalPositionCollateral := 15, totalTokensOutstanding := 10\<rparr>)"
    by (simp add: eval_defs)
  from absent_sponsor [OF z, of 2 5 demoConfig 1 2 0] z e show ?thesis
    by simp
qed

text \<open>
  The claim as stated fails in its last part: sponsor 2 has no collateral, sponsor 1 transfers its
  position to it, and sponsor 2 then holds 15 of collateral without having called \<open>create\<close>.
\<close>

theorem absent_sponsor_counterexample:
  "getFeeAdjustedCollateral transferLedger (rawCollateral (positions transferLedger 2)) = Inr 0
   \<and> execOp demoConfig 12 (TransferPositionPassedRequest 1 2) transferLedger
       = Inr transferredLedger
   \<and> getFeeAdjustedCollateral transferredLedger (rawCollateral (positions transferredLedger 2))
       = Inr 15"
  by (simp add: eval_defs transferLedger_def transferredLedger_def fun_eq_iff)

section \<open>A pending withdrawal request\<close>

lemma bindE_eq_Inl:
  "bindE m f = Inl e \<longleftrightarrow> m = Inl e \<or> (\<exists>x. m = Inr x \<and> f x = Inl e)"
  by (cases m) simp_all

lemma getFeeAdjustedCollateral_Inl:
  "getFeeAdjustedCollateral st raw = Inl e \<Longrightarrow> e = Overflow"
  by (auto simp: getFeeAdjustedCollateral_def FixedPoint_mul_def split: if_splits)

lemma convertToRawCollateral_Inl:
  "convertToRawCollateral st c = Inl e \<Longrightarrow> e = Overflow \<or> e = DivideByZero"
  by (auto simp: convertToRawCollateral_def FixedPoint_div_def split: if_splits)

lemma getCollateralizationRatio_Inl:
  "getCollateralizationRatio c n = Inl e \<Longrightarrow> e = Overflow"
  by (auto simp: getCollateralizationRatio_def FixedPoint_div_def split: if_splits)

lemma bindE_neq_Inl:
  "m \<noteq> Inl e \<Longrightarrow> (\<And>x. m = Inr x \<Longrightarrow> f x \<noteq> Inl e) \<Longrightarrow> bindE m f \<noteq> Inl e"
  by (cases m) simp_all

lemma case_prod_neq_Inl:
  "(\<And>a b. x = (a, b) \<Longrightarrow> f a b \<noteq> Inl e) \<Longrightarrow> (case x of (a, b) \<Rightarrow> f a b) \<noteq> Inl e"
  by (cases x) simp

lemma bindE_fails:
  "(\<And>e. m = Inl e \<Longrightarrow> Q e) \<Longrightarrow> (\<And>x. m = Inr x \<Longrightarrow> \<exists>e. f x = Inl e \<and> Q e) \<Longrightarrow>
   \<exists>e. bindE m f = Inl e \<and> Q e"
  by (cases m) simp_all

lemma arith_not_pending [simp]:
  "FixedPoint_add a b \<noteq> Inl PendingWithdrawal"
  "FixedPoint_sub a b \<noteq> Inl PendingWithdrawal"
  "FixedPoint_mul a b \<noteq> Inl PendingWithdrawal"
  "FixedPoint_div a b \<noteq> Inl PendingWithdrawal"
  "getFeeAdjustedCollateral st a \<noteq> Inl PendingWithdrawal"
  "convertToRawCollateral st a \<noteq> Inl PendingWithdrawal"
  "getCollateralizationRatio a b \<noteq> Inl PendingWithdrawal"
  by (simp_all add: FixedPoint_add_def FixedPoint_sub_def FixedPoint_mul_def FixedPoint_div_def
      getFeeAdjustedCollateral_def convertToRawCollateral_def getCollateralizationRatio_def)

lemma checkCollateralization_not_pending [simp]:
  "checkCollateralization st c n \<noteq> Inl PendingWithdrawal"
  unfolding checkCollateralization_def
  by (intro bindE_neq_Inl) simp_all

lemma checkPositionCollateralization_not_pending [simp]:
  "checkPositionCollateralization st p \<noteq> Inl PendingWithdrawal"
  unfolding checkPositionCollateralization_def
  by (intro bindE_neq_Inl) simp_all

lemma removeCollateral_not_pending [simp]:
  "removeCollateral st raw c \<noteq> Inl PendingWithdrawal"
  unfolding removeCollateral_def
  by (intro bindE_neq_Inl) simp_all

lemma addCollateral_not_pending [simp]:
  "addCollateral st raw c \<noteq> Inl PendingWithdrawal"
  unfolding addCollateral_def
  by (intro bindE_neq_Inl) simp_all

lemma incrementCollateralBalances_not_pending [simp]:
  "incrementCollateralBalances st s c \<noteq> Inl PendingWithdrawal"
  unfolding incrementCollateralBalances_def
  by (intro bindE_neq_Inl case_prod_neq_Inl) simp_all

lemma decrementCollateralBalances_not_pending [simp]:
  "decrementCollateralBalances st s c \<noteq> Inl PendingWithdrawal"
  unfolding decrementCollateralBalances_def
  by (intro bindE_neq_Inl case_prod_neq_Inl) simp_all

lemma decrementCollateralBalancesCheckGCR_not_pending [simp]:
  "decrementCollateralBalancesCheckGCR st s c \<noteq> Inl PendingWithdrawal"
  unfolding decrementCollateralBalancesCheckGCR_def Let_def
  by (intro bindE_neq_Inl case_prod_neq_Inl) simp_all

lemma getPositionData_not_pending [simp]:
  "getPositionData st s \<noteq> Inl PendingWithdrawal"
  unfolding getPositionData_def
  by (intro bindE_neq_Inl) simp_all

lemma deleteSponsorPosition_not_pending [simp]:
  "deleteSponsorPosition st s \<noteq> Inl PendingWithdrawal"
  unfolding deleteSponsorPosition_def Let_def
  by (intro bindE_neq_Inl) simp_all

lemma noPendingWithdrawal_not_pending:
  "withdrawalRequestPassTimestamp (positions st s) = 0 \<Longrightarrow>
   noPendingWithdrawal st s \<noteq> Inl PendingWithdrawal"
  unfolding noPendingWithdrawal_def
  by (intro bindE_neq_Inl) (simp_all add: getPositionData_Inr)

lemma noPendingWithdrawal_pending:
  "withdrawalRequestPassTimestamp (positions st s) \<noteq> 0 \<Longrightarrow>
   getFeeAdjustedCollateral st (rawCollateral (positions st s)) = Inr g \<Longrightarrow> 0 < g \<Longrightarrow>
   noPendingWithdrawal st s = Inl PendingWithdrawal"
  by (simp add: noPendingWithdrawal_def getPositionData_def)

lemma noPendingWithdrawal_pending_isl:
  assumes "withdrawalRequestPassTimestamp (positions st s) \<noteq> 0"
  shows "isl (noPendingWithdrawal st s)"
proof (cases "getPositionData st s")
  case (Inl e)
  then show ?thesis by (simp add: noPendingWithdrawal_def)
next
  case (Inr p)
  then have "p = positions st s" by (simp add: getPositionData_Inr)
  with Inr assms show ?thesis by (simp add: noPendingWithdrawal_def)
qed

lemma isl_bindE: "isl m \<Longrightarrow> isl (bindE m f)"
  by (cases m) simp_all

lemma depositTo_not_pending:
  "withdrawalRequestPassTimestamp (positions st s) = 0 \<Longrightarrow>
   depositTo x s c st \<noteq> Inl PendingWithdrawal"
  unfolding depositTo_def
  by (intro bindE_neq_Inl case_prod_neq_Inl) (simp_all add: noPendingWithdrawal_not_pending)

lemma withdraw_not_pending:
  "withdrawalRequestPassTimestamp (positions st s) = 0 \<Longrightarrow>
   withdraw s c st \<noteq> Inl PendingWithdrawal"
  unfolding withdraw_def
  by (intro bindE_neq_Inl case_prod_neq_Inl) (simp_all add: noPendingWithdrawal_not_pending)

lemma redeem_not_pending:
  "withdrawalRequestPassTimestamp (positions st s) = 0 \<Longrightarrow>
   redeem cfg s n st \<noteq> Inl PendingWithdrawal"
  unfolding redeem_def
  apply (intro bindE_neq_Inl case_prod_neq_Inl)
         apply (simp_all add: noPendingWithdrawal_not_pending)
  apply (intro impI bindE_neq_Inl case_prod_neq_Inl)
      apply simp_all
  done

lemma create_not_pending:
  "withdrawalRequestPassTimestamp (positions st s) = 0 \<Longrightarrow>
   create cfg s c n st \<noteq> Inl PendingWithdrawal"
  unfolding create_def Let_def
  by (intro bindE_neq_Inl case_prod_neq_Inl) simp_all

lemma checkCollateralization_Inl:
  "checkCollateralization st c n = Inl e \<Longrightarrow> e = Overflow"
  by (auto simp: checkCollateralization_def bindE_eq_Inl
      dest: getFeeAdjustedCollateral_Inl getCollateralizationRatio_Inl)

lemma create_pending:
  assumes "withdrawalRequestPassTimestamp (positions st s) \<noteq> 0"
  shows "\<exists>e. create cfg s c n st = Inl e
     \<and> (e = PendingWithdrawal \<or> e = InsufficientCollateral \<or> e = Overflow)"
  unfolding create_def Let_def
  apply (rule bindE_fails, simp add: getFeeAdjustedCollateral_Inl)
  apply (rule bindE_fails, simp add: FixedPoint_add_def split: if_splits)
  apply (rule bindE_fails, simp add: FixedPoint_add_def split: if_splits)
  apply (rule bindE_fails, simp add: checkCollateralization_Inl)
  apply (rule bindE_fails, simp add: checkCollateralization_Inl split: if_splits)
  apply (rule bindE_fails, simp)
  apply (simp add: assms)
  done

lemma create_pending_passes:
  assumes p: "withdrawalRequestPassTimestamp (positions st s) \<noteq> 0"
    and g: "getFeeAdjustedCollateral st (rawCollateral (positions st s)) = Inr g"
    and b: "g + c \<le> UINT_MAX" "tokensOutstanding (positions st s) + n \<le> UINT_MAX"
    and r: "checkCollateralization st (g + c) (tokensOutstanding (positions st s) + n) = Inr full"
    and m: "\<not> full \<Longrightarrow> checkCollateralization st c n = Inr marginal"
  shows "create cfg s c n st
     = Inl (if full \<or> marginal then PendingWithdrawal else InsufficientCollateral)"
proof (cases full)
  case True
  with p g b r show ?thesis
    by (simp add: create_def Let_def FixedPoint_add_def)
next
  case False
  with p g b r m [OF False] show ?thesis
    by (simp add: create_def Let_def FixedPoint_add_def)
qed

text \<open>
  Claim C6, amended. While the withdrawal pass timestamp of a sponsor is nonzero, \<open>depositTo\<close>,
  \<open>deposit\<close>, \<open>withdraw\<close>, \<open>redeem\<close> and \<open>create\<close> on that sponsor all revert (a revert
  carries no ledger: the state is the one before the call). The first four revert with "Pending
  withdrawal" when the position holds fee-adjusted collateral, and with "Position has no
  collateral" when it holds none: the modifier looks the position up first. \<open>create\<close> checks
  the collateralization before the request: it reverts with "Pending withdrawal" when the
  resulting position or else the marginal pair passes that check, with "Insufficient
  collateral" when both fail it, and otherwise with an arithmetic overflow. After a successful
  \<open>cancelWithdrawal\<close> or \<open>withdrawPassedRequest\<close> the pass timestamp is zero and none of the
  five reverts with "Pending withdrawal".
\<close>

theorem pending_withdrawal_blocks:
  "(withdrawalRequestPassTimestamp (positions st s) \<noteq> 0 \<longrightarrow>
      isl (depositTo x s c st) \<and> isl (deposit s c st) \<and> isl (withdraw s c st)
      \<and> isl (redeem cfg s n st)
      \<and> (create cfg s c n st = Inl PendingWithdrawal
          \<or> create cfg s c n st = Inl InsufficientCollateral
          \<or> create cfg s c n st = Inl Overflow)
      \<and> ((\<exists>g. getFeeAdjustedCollateral st (rawCollateral (positions st s)) = Inr g \<and> 0 < g)
           \<longrightarrow> depositTo x s c st = Inl PendingWithdrawal
             \<and> deposit s c st = Inl PendingWithdrawal
             \<and> withdraw s c st = Inl PendingWithdrawal
             \<and> redeem cfg s n st = Inl PendingWithdrawal)
      \<and> (getFeeAdjustedCollateral st (rawCollateral (positions st s)) = Inr 0
           \<longrightarrow> depositTo x s c st = Inl PositionHasNoCollateral
             \<and> deposit s c st = Inl PositionHasNoCollateral
             \<and> withdraw s c st = Inl PositionHasNoCollateral
             \<and> redeem cfg s n st = Inl PositionHasNoCollateral)
      \<and> (getFeeAdjustedCollateral st (rawCollateral (positions st s)) = Inr g
          \<and> g + c \<le> UINT_MAX \<and> tokensOutstanding (positions st s) + n \<le> UINT_MAX
           \<longrightarrow> (checkCollateralization st (g + c) (tokensOutstanding (positions st s) + n)
                  = Inr True
                 \<longrightarrow> create cfg s c n st = Inl PendingWithdrawal)
             \<and> (checkCollateralization st (g + c) (tokensOutstanding (positions st s) + n)
                  = Inr False \<and> checkCollateralization st c n = Inr True
                 \<longrightarrow> create cfg s c n st = Inl PendingWithdrawal)
             \<and> (checkCollateralization st (g + c) (tokensOutstanding (positions st s) + n)
                  = Inr False \<and> checkCollateralization st c n = Inr False
                 \<longrightarrow> create cfg s c n st = Inl InsufficientCollateral)))
   \<and> (cancelWithdrawal s st = Inr (st', effs) \<or> withdrawPassedRequest now s st = Inr (st', w, effs)
       \<longrightarrow> withdrawalRequestPassTimestamp (positions st' s) = 0
         \<and> depositTo x s c st' \<noteq> Inl PendingWithdrawal
         \<and> deposit s c st' \<noteq> Inl PendingWithdrawal
         \<and> withdraw s c st' \<noteq> Inl PendingWithdrawal
         \<and> redeem cfg s n st' \<noteq> Inl PendingWithdrawal
         \<and> create cfg s c n st' \<noteq> Inl PendingWithdrawal)"
proof -
  have blocked: "isl (depositTo x s c st) \<and> isl (deposit s c st) \<and> isl (withdraw s c st)
      \<and> isl (redeem cfg s n st)"
    if "withdrawalRequestPassTimestamp (positions st s) \<noteq> 0"
    using noPendingWithdrawal_pending_isl [OF that]
    by (simp add: depositTo_def deposit_def withdraw_def redeem_def isl_bindE)
  have created: "create cfg s c n st = Inl PendingWithdrawal
          \<or> create cfg s c n st = Inl InsufficientCollateral
          \<or> create cfg s c n st = Inl Overflow"
    if "withdrawalRequestPassTimestamp (positions st s) \<noteq> 0"
    using create_pending [OF that, of cfg c n] by auto
  have named: "depositTo x s c st = Inl PendingWithdrawal
             \<and> deposit s c st = Inl PendingWithdrawal
             \<and> withdraw s c st = Inl PendingWithdrawal
             \<and> redeem cfg s n st = Inl PendingWithdrawal"
    if "withdrawalRequestPassTimestamp (positions st s) \<noteq> 0"
      and "getFeeAdjustedCollateral st (rawCollateral (positions st s)) = Inr g'" and "0 < g'" for g'
    using noPendingWithdrawal_pending [OF that]
    by (simp add: depositTo_def deposit_def withdraw_def redeem_def)
  have none: "depositTo x s c st = Inl PositionHasNoCollateral
             \<and> deposit s c st = Inl PositionHasNoCollateral
             \<and> withdraw s c st = Inl PositionHasNoCollateral
             \<and> redeem cfg s n st = Inl PositionHasNoCollateral"
    if "getFeeAdjustedCollateral st (rawCollateral (positions st s)) = Inr 0"
    using noPendingWithdrawal_no_collateral [OF that]
    by (simp add: depositTo_def deposit_def withdraw_def redeem_def)
  have order: "(checkCollateralization st (g + c) (tokensOutstanding (positions st s) + n)
                  = Inr True
                 \<longrightarrow> create cfg s c n st = Inl PendingWithdrawal)
             \<and> (checkCollateralization st (g + c) (tokensOutstanding (positions st s) + n)
                  = Inr False \<and> checkCollateralization st c n = Inr True
                 \<longrightarrow> create cfg s c n st = Inl PendingWithdrawal)
             \<and> (checkCollateralization st (g + c) (tokensOutstanding (positions st s) + n)
                  = Inr False \<and> checkCollateralization st c n = Inr False
                 \<longrightarrow> create cfg s c n st = Inl InsufficientCollateral)"
    if p: "withdrawalRequestPassTimestamp (positions st s) \<noteq> 0"
      and g: "getFeeAdjustedCollateral st (rawCollateral (positions st s)) = Inr g"
      and b: "g + c \<le> UINT_MAX" "tokensOutstanding (positions st s) + n \<le> UINT_MAX"
    using create_pending_passes [OF p g b, where full = True and marginal = False and cfg = cfg]
      create_pending_passes [OF p g b, where full = False and marginal = True and cfg = cfg]
      create_pending_passes [OF p g b, where full = False and marginal = False and cfg = cfg]
    by simp
  have cleared: "withdrawalRequestPassTimestamp (positions st' s) = 0"
    if "cancelWithdrawal s st = Inr (st', effs) \<or> withdrawPassedRequest now s st = Inr (st', w, effs)"
    using that
    by (auto simp: cancelWithdrawal_def withdrawPassedRequest_def bindE_eq_Inr Let_def
        resetWithdrawalRequest_def split: prod.splits)
  have after: "depositTo x s c st' \<noteq> Inl PendingWithdrawal
         \<and> deposit s c st' \<noteq> Inl PendingWithdrawal
         \<and> withdraw s c st' \<noteq> Inl PendingWithdrawal
         \<and> redeem cfg s n st' \<noteq> Inl PendingWithdrawal
         \<and> create cfg s c n st' \<noteq> Inl PendingWithdrawal"
    if "withdrawalRequestPassTimestamp (positions st' s) = 0"
    using that
    by (simp add: depositTo_not_pending withdraw_not_pending redeem_not_pending
        create_not_pending deposit_def)
  from blocked created named none order cleared after show ?thesis
    by blast
qed

text \<open>
  On \<open>requestsLedger\<close> (position 15 for 10, global ratio 1.5, request pending): the four
  operations and a \<open>create\<close> of 10 tokens with 15 of collateral revert with "Pending
  withdrawal"; so does a \<open>create\<close> of 1 token with 2 of collateral; after
  \<open>cancelWithdrawal\<close> none does.
\<close>

theorem pending_withdrawal_blocks_witness:
  "withdrawalRequestPassTimestamp (positions requestsLedger 1) \<noteq> 0
   \<and> depositTo 2 1 5 requestsLedger = Inl PendingWithdrawal
   \<and> deposit 1 5 requestsLedger = Inl PendingWithdrawal
   \<and> withdraw 1 5 requestsLedger = Inl PendingWithdrawal
   \<and> redeem demoConfig 1 4 requestsLedger = Inl PendingWithdrawal
   \<and> checkCollateralization requestsLedger (15 + 15) (10 + 10) = Inr True
   \<and> create demoConfig 1 15 10 requestsLedger = Inl PendingWithdrawal
   \<and> checkCollateralization requestsLedger (15 + 2) (10 + 1) = Inr True
   \<and> create demoConfig 1 2 1 requestsLedger = Inl PendingWithdrawal
   \<and> cancelWithdrawal 1 requestsLedger = Inr (transferLedger, [])
   \<and> withdrawalRequestPassTimestamp (positions transferLedger 1) = 0
   \<and> depositTo 2 1 5 transferLedger \<noteq> Inl PendingWithdrawal
   \<and> create demoConfig 1 15 10 transferLedger \<noteq> Inl PendingWithdrawal"
proof -
  have p: "withdrawalRequestPassTimestamp (positions requestsLedger 1) \<noteq> 0"
    by (simp add: requestsLedger_def)
  have g: "getFeeAdjustedCollateral requestsLedger (rawCollateral (positions requestsLedger 1))
      = Inr 15"
    by (simp add: requestsLedger_def fee_defs arith_defs)
  have t: "tokensOutstanding (positions requestsLedger 1) = 10"
    by (simp add: requestsLedger_def)
  have b: "(15::nat) + 15 \<le> UINT_MAX" "(10::nat) + 10 \<le> UINT_MAX"
    "(15::nat) + 2 \<le> UINT_MAX" "(10::nat) + 1 \<le> UINT_MAX"
    by (simp_all add: UINT_MAX_def)
  have k: "checkCollateralization requestsLedger (15 + 15) (10 + 10) = Inr True"
    "checkCollateralization requestsLedger (15 + 2) (10 + 1) = Inr True"
    by (simp_all add: requestsLedger_def internal_defs fee_defs arith_defs)
  have c: "cancelWithdrawal 1 requestsLedger = Inr (transferLedger, [])"
    by (simp add: eval_defs requestsLedger_def transferLedger_def)
  from pending_withdrawal_blocks
         [of requestsLedger 1 2 5 demoConfig 4 15 transferLedger "[]" 0 0]
       pending_withdrawal_blocks
         [of requestsLedger 1 2 15 demoConfig 10 15 transferLedger "[]" 0 0]
       pending_withdrawal_blocks
         [of requestsLedger 1 2 2 demoConfig 1 15 transferLedger "[]" 0 0]
       p g t b k c
  show ?thesis
    by simp
qed

text \<open>
  The claim as stated fails for \<open>create\<close>: with a withdrawal request pending, a \<open>create\<close> of
  100 tokens against no collateral reverts with "Insufficient collateral", the check that comes
  first in the source, not with "Pending withdrawal". It fails for the other operations too:
  on \<open>dustLedger\<close> the request is pending, fees have made the position worth nothing, and
  \<open>depositTo\<close>, \<open>deposit\<close>, \<open>withdraw\<close> and \<open>redeem\<close> revert with "Position has no
  collateral".
\<close>

theorem pending_withdrawal_blocks_counterexample:
  "runOps demoConfig
     [(1, Create 1 15 10), (1, RequestTransferPosition 1), (2, RequestWithdrawal 1 5)]
     emptyLedger = Inr requestsLedger
   \<and> withdrawalRequestPassTimestamp (positions requestsLedger 1) = 12
   \<and> create demoConfig 1 0 100 requestsLedger = Inl InsufficientCollateral
   \<and> runOps demoConfig
     [(1, Create 1 1 1), (2, RequestWithdrawal 1 1), (3, ChargeFees 900000000000000000)]
     emptyLedger = Inr dustLedger
   \<and> withdrawalRequestPassTimestamp (positions dustLedger 1) = 12
   \<and> depositTo 2 1 5 dustLedger = Inl PositionHasNoCollateral
   \<and> deposit 1 5 dustLedger = Inl PositionHasNoCollateral
   \<and> withdraw 1 1 dustLedger = Inl PositionHasNoCollateral
   \<and> redeem demoConfig 1 1 dustLedger = Inl PositionHasNoCollateral"
  by (simp add: eval_defs requestsLedger_def dustLedger_def)

section \<open>Solvency\<close>

lemma div_add_div_le:
  fixes x y k :: nat
  shows "x div k + y div k \<le> (x + y) div k"
proof (cases "k = 0")
  case True
  then show ?thesis by simp
next
  case False
  have "(x div k + y div k) * k \<le> x + y"
    by (simp add: add_mult_distrib add_mono)
  with False show ?thesis
    by (simp add: less_eq_div_iff_mult_less_eq)
qed

lemma sum_div_le:
  fixes f :: "'a \<Rightarrow> nat"
  shows "finite A \<Longrightarrow> (\<Sum>a\<in>A. f a div k) \<le> (\<Sum>a\<in>A. f a) div k"
proof (induction A rule: finite_induct)
  case empty
  then show ?case by simp
next
  case (insert x F)
  have "f x div k + (\<Sum>a\<in>F. f a div k) \<le> f x div k + (\<Sum>a\<in>F. f a) div k"
    using insert.IH by simp
  also have "\<dots> \<le> (f x + (\<Sum>a\<in>F. f a)) div k"
    by (rule div_add_div_le)
  finally show ?case
    using insert.hyps by simp
qed

lemma rawCollateral_le_sum: "rawCollateral (positions st a) \<le> sumRawCollateral st"
  unfolding sumRawCollateral_def
  by (rule member_le_sum) simp_all

lemma positionCollateral_eq:
  assumes inv: "ledgerInv cfg st"
  shows "getFeeAdjustedCollateral st (rawCollateral (positions st a))
           = Inr (rawCollateral (positions st a) * cumulativeFeeMultiplier st div FP_SCALING_FACTOR)"
proof -
  from inv have "sumRawCollateral st \<le> rawTotalPositionCollateral st"
    and b: "rawTotalPositionCollateral st * cumulativeFeeMultiplier st \<le> UINT_MAX"
    by (simp_all add: ledgerInv_def)
  with rawCollateral_le_sum [of st a]
  have "rawCollateral (positions st a) \<le> rawTotalPositionCollateral st"
    by simp
  then have "rawCollateral (positions st a) * cumulativeFeeMultiplier st
      \<le> rawTotalPositionCollateral st * cumulativeFeeMultiplier st"
    by (rule mult_le_mono1)
  from this b have "rawCollateral (positions st a) * cumulativeFeeMultiplier st \<le> UINT_MAX"
    by (rule order_trans)
  then show ?thesis
    by (simp add: getFeeAdjustedCollateral_Inr)
qed

lemma sum_div_gap:
  fixes f :: "'a \<Rightarrow> nat"
  assumes F: "0 < F"
  shows "finite A \<Longrightarrow>
    (\<Sum>a\<in>A. f a) + card {a \<in> A. 0 < f a}
      \<le> ((\<Sum>a\<in>A. f a div F) + card {a \<in> A. 0 < f a}) * F"
proof (induction A rule: finite_induct)
  case empty
  then show ?case by simp
next
  case (insert x B)
  let ?k = "card {a \<in> B. 0 < f a}"
  show ?case
  proof (cases "0 < f x")
    case False
    then have "{a \<in> insert x B. 0 < f a} = {a \<in> B. 0 < f a}"
      by auto
    with False insert show ?thesis
      by simp
  next
    case True
    then have s: "{a \<in> insert x B. 0 < f a} = insert x {a \<in> B. 0 < f a}"
      by auto
    from insert.hyps have c: "card (insert x {a \<in> B. 0 < f a}) = Suc ?k"
      by simp
    from F have "f x < (f x div F + 1) * F"
      using div_less_iff_less_mult [of F "f x" "f x div F + 1"] by simp
    then have fx: "f x + 1 \<le> (f x div F + 1) * F"
      by simp
    from fx insert.IH
    have "(f x + 1) + ((\<Sum>a\<in>B. f a) + ?k)
        \<le> (f x div F + 1) * F + ((\<Sum>a\<in>B. f a div F) + ?k) * F"
      by (rule add_mono)
    moreover have "(\<Sum>a\<in>insert x B. f a) = f x + (\<Sum>a\<in>B. f a)"
      and "(\<Sum>a\<in>insert x B. f a div F) = f x div F + (\<Sum>a\<in>B. f a div F)"
      using insert.hyps by simp_all
    moreover have "card {a \<in> insert x B. 0 < f a} = Suc ?k"
      by (simp only: s c)
    ultimately show ?thesis
      by (simp only: add_mult_distrib) simp
  qed
qed

lemma sum_div_less:
  fixes f :: "'a \<Rightarrow> nat"
  assumes F: "0 < F" and A: "finite A"
  shows "(\<Sum>a\<in>A. f a) div F < (\<Sum>a\<in>A. f a div F) + max 1 (card {a \<in> A. 0 < f a})"
proof -
  let ?k = "card {a \<in> A. 0 < f a}"
  let ?q = "\<Sum>a\<in>A. f a div F"
  from sum_div_gap [OF F A, of f] have g: "(\<Sum>a\<in>A. f a) + ?k \<le> (?q + ?k) * F" .
  have "(\<Sum>a\<in>A. f a) < (?q + max 1 ?k) * F"
  proof (cases "?k = 0")
    case True
    with g have "(\<Sum>a\<in>A. f a) \<le> ?q * F" by simp
    also from F have "\<dots> < (?q + 1) * F" by simp
    finally show ?thesis using True by simp
  next
    case False
    then have "max 1 ?k = ?k" by simp
    with g False show ?thesis by simp
  qed
  with F show ?thesis
    by (simp add: div_less_iff_less_mult)
qed

lemma positionUpdate_lockstep:
  assumes eq: "sumRawCollateral st = rawTotalPositionCollateral st"
    and u: "positionUpdate cfg op st a st'"
  shows "sumRawCollateral st' = rawTotalPositionCollateral st'"
proof -
  from u have pos: "positions st' = (positions st)(a := positions st' a)"
    and tot: "rawTotalPositionCollateral st' + rawCollateral (positions st a)
         = rawTotalPositionCollateral st + rawCollateral (positions st' a)"
    by (simp_all add: positionUpdate_def)
  from sumRawCollateral_upd [OF pos] tot eq show ?thesis
    by simp
qed

lemma execOp_lockstep:
  assumes eq: "sumRawCollateral st = rawTotalPositionCollateral st"
    and e: "execOp cfg now op st = Inr st'" and nt: "\<not> isTransfer op"
  shows "sumRawCollateral st' = rawTotalPositionCollateral st'"
proof -
  from execOp_shape [OF e] nt consider
    (upd) a where "positionUpdate cfg op st a st'"
    | (fee) m where "st' = st\<lparr>cumulativeFeeMultiplier := m\<rparr>"
    by auto
  then show ?thesis
  proof cases
    case upd
    from positionUpdate_lockstep [OF eq upd] show ?thesis .
  next
    case fee
    with eq show ?thesis by simp
  qed
qed

lemma runOps_lockstep_gen:
  "sumRawCollateral st = rawTotalPositionCollateral st \<Longrightarrow> transferFree ops \<Longrightarrow>
   runOps cfg ops st = Inr st' \<Longrightarrow> sumRawCollateral st' = rawTotalPositionCollateral st'"
proof (induction ops arbitrary: st)
  case Nil
  then show ?case by simp
next
  case (Cons x ops)
  obtain now op where x: "x = (now, op)" by (cases x)
  from Cons.prems(3) x obtain st1 where 1: "execOp cfg now op st = Inr st1"
    and 2: "runOps cfg ops st1 = Inr st'"
    by (auto simp: bindE_eq_Inr)
  from Cons.prems(2) x have nt: "\<not> isTransfer op" and tf: "transferFree ops"
    by simp_all
  from execOp_lockstep [OF Cons.prems(1) 1 nt]
  have "sumRawCollateral st1 = rawTotalPositionCollateral st1" .
  from Cons.IH [OF this tf 2] show ?case .
qed

lemma runOps_lockstep:
  "transferFree ops \<Longrightarrow> runOps cfg ops emptyLedger = Inr st \<Longrightarrow>
   sumRawCollateral st = rawTotalPositionCollateral st"
proof -
  assume tf: "transferFree ops" and run: "runOps cfg ops emptyLedger = Inr st"
  have "rawTotalPositionCollateral emptyLedger = 0"
    by (simp add: emptyLedger_def)
  then have "sumRawCollateral emptyLedger = rawTotalPositionCollateral emptyLedger"
    by simp
  from runOps_lockstep_gen [OF this tf run] show ?thesis .
qed

lemma execOp_raw_accounting:
  assumes e: "execOp cfg now op st = Inr st'"
  shows "rawTotalPositionCollateral st' + sumRawCollateral st
     = rawTotalPositionCollateral st + sumRawCollateral st' + overwrittenCollateral op st"
proof (cases "isTransfer op")
  case True
  then obtain y new where op: "op = TransferPositionPassedRequest y new"
    by (cases op) simp_all
  with e have t: "transferPositionPassedRequest now y new st = Inr (st', [])"
    by (auto simp: bindE_eq_Inr transfer_Inr)
  let ?p = "(positions st y)\<lparr>transferPositionRequestPassTimestamp := 0\<rparr>"
  from t obtain c where c: "getFeeAdjustedCollateral st (rawCollateral (positions st y)) = Inr c"
      "0 < c"
    and z: "getFeeAdjustedCollateral st (rawCollateral (positions st new)) = Inr 0"
    and st': "st' = st\<lparr>positions := (positions st)(new := ?p, y := emptyPosition)\<rparr>"
    by (auto simp: transfer_Inr)
  from c z have ne: "y \<noteq> new" by auto
  define mid where "mid = st\<lparr>positions := (positions st)(new := ?p)\<rparr>"
  have s1: "sumRawCollateral mid + rawCollateral (positions st new)
      = sumRawCollateral st + rawCollateral ?p"
    by (rule sumRawCollateral_upd) (simp add: mid_def)
  have s2: "sumRawCollateral st' + rawCollateral (positions mid y)
      = sumRawCollateral mid + rawCollateral (positions st' y)"
    by (rule sumRawCollateral_upd) (simp add: mid_def st')
  from ne have "positions mid y = positions st y" "positions st' y = emptyPosition"
    by (simp_all add: mid_def st')
  with s1 s2 have "sumRawCollateral st' + rawCollateral (positions st new) = sumRawCollateral st"
    by (simp add: emptyPosition_def)
  with op show ?thesis
    by (simp add: st')
next
  case False
  then have o: "overwrittenCollateral op st = 0"
    by (cases op) simp_all
  from execOp_shape [OF e] False consider
    (upd) a where "positionUpdate cfg op st a st'"
    | (fee) m where "op = ChargeFees m" "st' = st\<lparr>cumulativeFeeMultiplier := m\<rparr>"
    by auto
  then show ?thesis
  proof cases
    case upd
    then have pos: "positions st' = (positions st)(a := positions st' a)"
      and tot: "rawTotalPositionCollateral st' + rawCollateral (positions st a)
         = rawTotalPositionCollateral st + rawCollateral (positions st' a)"
      by (simp_all add: positionUpdate_def)
    have "sumRawCollateral st' + rawCollateral (positions st a)
        = sumRawCollateral st + rawCollateral (positions st' a)"
      using pos by (rule sumRawCollateral_upd)
    with tot o show ?thesis
      by simp
  next
    case fee
    with o show ?thesis by (simp add: sumRawCollateral_def)
  qed
qed

text \<open>
  Claim C1, amended. In every ledger reached from the empty one by successful calls (fees
  charged in between included), the fee-adjusted value of \<open>rawTotalPositionCollateral\<close> and of
  every position's \<open>rawCollateral\<close> is computed without overflow, the raw collateral of the
  positions never sums to more than \<open>rawTotalPositionCollateral\<close>, and the fee-adjusted
  collateral of the positions never sums to more than the fee-adjusted aggregate. When no
  position was transferred, or the multiplier is 1.0, the raw collateral of the positions sums
  to exactly \<open>rawTotalPositionCollateral\<close>, at every multiplier, and the fee-adjusted aggregate
  exceeds the sum of the fee-adjusted collateral of the positions by less than the number of
  positions that hold collateral (each position is truncated separately); at multiplier 1.0
  the two are equal. In every case a further successful call moves the raw aggregate and the
  sum of the raw collateral of the positions by the same amount, except that a transfer
  removes from the sum what the recipient held as raw collateral.
\<close>

theorem solvency:
  assumes run: "runOps cfg ops emptyLedger = Inr st"
  shows "\<exists>g. getFeeAdjustedCollateral st (rawTotalPositionCollateral st) = Inr g
     \<and> getFeeAdjustedCollateral st (rawCollateral (positions st a)) = Inr (positionCollateral st a)
     \<and> sumRawCollateral st \<le> rawTotalPositionCollateral st
     \<and> sumPositionCollateral st \<le> g
     \<and> (transferFree ops \<or> cumulativeFeeMultiplier st = FP_SCALING_FACTOR
          \<longrightarrow> sumRawCollateral st = rawTotalPositionCollateral st
            \<and> g < sumPositionCollateral st + max 1 (collateralizedCount st))
     \<and> (cumulativeFeeMultiplier st = FP_SCALING_FACTOR \<longrightarrow> sumPositionCollateral st = g)
     \<and> (execOp cfg now op st = Inr st' \<longrightarrow>
          rawTotalPositionCollateral st' + sumRawCollateral st
            = rawTotalPositionCollateral st + sumRawCollateral st'
              + overwrittenCollateral op st)"
proof -
  let ?m = "cumulativeFeeMultiplier st"
  let ?R = "rawTotalPositionCollateral st"
  let ?F = "FP_SCALING_FACTOR"
  from runOps_inv [OF run] have inv: "ledgerInv cfg st" .
  then have le: "sumRawCollateral st \<le> ?R"
    and eq: "?m = ?F \<longrightarrow> sumRawCollateral st = ?R"
    and b: "?R * ?m \<le> UINT_MAX"
    by (simp_all add: ledgerInv_def)
  have pc: "positionCollateral st x = rawCollateral (positions st x) * ?m div ?F" for x
    by (simp add: positionCollateral_def positionCollateral_eq [OF inv])
  have g: "getFeeAdjustedCollateral st ?R = Inr (?R * ?m div ?F)"
    using b by (simp add: getFeeAdjustedCollateral_Inr)
  have spc: "sumPositionCollateral st = (\<Sum>x\<in>UNIV. rawCollateral (positions st x) * ?m div ?F)"
    by (simp add: sumPositionCollateral_def pc)
  have srm: "(\<Sum>x\<in>UNIV. rawCollateral (positions st x) * ?m) = sumRawCollateral st * ?m"
    by (simp add: sumRawCollateral_def sum_distrib_right)
  have "sumPositionCollateral st
      \<le> (\<Sum>x\<in>UNIV. rawCollateral (positions st x) * ?m) div ?F"
    unfolding spc by (rule sum_div_le) simp
  also have "\<dots> = sumRawCollateral st * ?m div ?F"
    by (simp only: srm)
  also have "\<dots> \<le> ?R * ?m div ?F"
    using le by (intro div_le_mono mult_le_mono1)
  finally have s: "sumPositionCollateral st \<le> ?R * ?m div ?F" .
  have lock: "sumRawCollateral st = ?R
      \<and> ?R * ?m div ?F < sumPositionCollateral st + max 1 (collateralizedCount st)"
    if h: "transferFree ops \<or> ?m = ?F"
  proof -
    from h eq runOps_lockstep [OF _ run] have l: "sumRawCollateral st = ?R"
      by blast
    have "{x \<in> UNIV. 0 < rawCollateral (positions st x) * ?m}
        \<subseteq> {x. 0 < rawCollateral (positions st x)}"
      by auto
    then have "card {x \<in> UNIV. 0 < rawCollateral (positions st x) * ?m}
        \<le> collateralizedCount st"
      unfolding collateralizedCount_def by (intro card_mono) simp_all
    moreover
    have "(\<Sum>x\<in>UNIV. rawCollateral (positions st x) * ?m) div ?F
        < (\<Sum>x\<in>UNIV. rawCollateral (positions st x) * ?m div ?F)
          + max 1 (card {x \<in> UNIV. 0 < rawCollateral (positions st x) * ?m})"
      by (rule sum_div_less) simp_all
    ultimately have "sumRawCollateral st * ?m div ?F
        < sumPositionCollateral st + max 1 (collateralizedCount st)"
      unfolding spc srm by (simp add: max_def split: if_splits)
    with l show ?thesis by simp
  qed
  have u: "sumPositionCollateral st = ?R * ?m div ?F" if "?m = ?F"
    using that eq by (simp add: sumPositionCollateral_def pc sumRawCollateral_def)
  from g s le lock u positionCollateral_eq [OF inv, of a] pc [of a]
    execOp_raw_accounting [of cfg now op st st'] show ?thesis
    by auto
qed

lemma truncationLedger_reachable:
  "runOps demoConfig
     [(1, Create 1 15 10), (2, Create 2 15 10), (3, ChargeFees 900000000000000000)] emptyLedger
     = Inr truncationLedger"
  by (simp add: eval_defs truncationLedger_def)

lemma strandedLedger_reachable:
  "runOps demoConfig
     [(1, Create 2 1 0), (1, Create 1 10 0), (1, RequestTransferPosition 1),
      (2, ChargeFees 900000000000000000)] emptyLedger
     = Inr strandedLedger"
  by (simp add: eval_defs strandedLedger_def fun_eq_iff)

lemma strandedLedger_transfer:
  "execOp demoConfig 11 (TransferPositionPassedRequest 1 2) strandedLedger
     = Inr strandedLedgerAfter"
  by (simp add: eval_defs strandedLedger_def strandedLedgerAfter_def fun_eq_iff)

lemma truncationLedger_sum: "sumPositionCollateral truncationLedger = 26"
proof -
  have "sumPositionCollateral truncationLedger
      = (\<Sum>a\<in>{1, 2}. positionCollateral truncationLedger a)"
    unfolding sumPositionCollateral_def
    by (rule sum.mono_neutral_right)
       (auto simp: positionCollateral_def truncationLedger_def emptyPosition_def)
  also have "\<dots> = 26"
    by (simp add: positionCollateral_def truncationLedger_def fee_defs arith_defs)
  finally show ?thesis .
qed

text \<open>
  At multiplier 1.0, one position of 15: the aggregate and the sum are both 15. At multiplier
  0.9, two positions of 15 and no transfer: the raw collateral sums to the raw aggregate 30,
  and the aggregate, worth 27, exceeds the sum by less than 2.
\<close>

theorem solvency_witness:
  "runOps demoConfig
     [(1, Create 1 15 10), (1, RequestTransferPosition 1), (2, RequestWithdrawal 1 5)]
     emptyLedger = Inr requestsLedger
   \<and> cumulativeFeeMultiplier requestsLedger = FP_SCALING_FACTOR
   \<and> getFeeAdjustedCollateral requestsLedger (rawTotalPositionCollateral requestsLedger)
       = Inr 15
   \<and> getFeeAdjustedCollateral requestsLedger (rawCollateral (positions requestsLedger 1))
       = Inr (positionCollateral requestsLedger 1)
   \<and> sumRawCollateral requestsLedger = 15
   \<and> sumPositionCollateral requestsLedger = 15
   \<and> transferFree [(1, Create 1 15 10), (2, Create 2 15 10), (3, ChargeFees 900000000000000000)]
   \<and> runOps demoConfig
     [(1, Create 1 15 10), (2, Create 2 15 10), (3, ChargeFees 900000000000000000)] emptyLedger
     = Inr truncationLedger
   \<and> getFeeAdjustedCollateral truncationLedger (rawTotalPositionCollateral truncationLedger)
       = Inr 27
   \<and> sumRawCollateral truncationLedger = 30
   \<and> sumPositionCollateral truncationLedger \<le> 27
   \<and> 27 < sumPositionCollateral truncationLedger + max 1 (collateralizedCount truncationLedger)
   \<and> runOps demoConfig
     [(1, Create 2 1 0), (1, Create 1 10 0), (1, RequestTransferPosition 1),
      (2, ChargeFees 900000000000000000)] emptyLedger
     = Inr strandedLedger
   \<and> execOp demoConfig 11 (TransferPositionPassedRequest 1 2) strandedLedger
     = Inr strandedLedgerAfter
   \<and> rawTotalPositionCollateral strandedLedger = 11
   \<and> sumRawCollateral strandedLedger = 11
   \<and> overwrittenCollateral (TransferPositionPassedRequest 1 2) strandedLedger = 1
   \<and> rawTotalPositionCollateral strandedLedgerAfter = 11
   \<and> sumRawCollateral strandedLedgerAfter = 10"
proof -
  have g: "getFeeAdjustedCollateral requestsLedger (rawTotalPositionCollateral requestsLedger)
       = Inr 15"
    by (simp add: requestsLedger_def fee_defs arith_defs)
  have m: "cumulativeFeeMultiplier requestsLedger = FP_SCALING_FACTOR"
    "rawTotalPositionCollateral requestsLedger = 15"
    by (simp_all add: requestsLedger_def)
  from solvency [OF requestsLedger_reachable, of 1] g m requestsLedger_reachable
  have one: "runOps demoConfig
     [(1, Create 1 15 10), (1, RequestTransferPosition 1), (2, RequestWithdrawal 1 5)]
     emptyLedger = Inr requestsLedger
   \<and> cumulativeFeeMultiplier requestsLedger = FP_SCALING_FACTOR
   \<and> getFeeAdjustedCollateral requestsLedger (rawTotalPositionCollateral requestsLedger)
       = Inr 15
   \<and> getFeeAdjustedCollateral requestsLedger (rawCollateral (positions requestsLedger 1))
       = Inr (positionCollateral requestsLedger 1)
   \<and> sumRawCollateral requestsLedger = 15
   \<and> sumPositionCollateral requestsLedger = 15"
    by auto
  have tf: "transferFree
      [(1, Create 1 15 10), (2, Create 2 15 10), (3, ChargeFees 900000000000000000)]"
    by simp
  have g': "getFeeAdjustedCollateral truncationLedger
      (rawTotalPositionCollateral truncationLedger) = Inr 27"
    "rawTotalPositionCollateral truncationLedger = 30"
    by (simp_all add: truncationLedger_def fee_defs arith_defs)
  from solvency [OF truncationLedger_reachable, of 1] g' tf truncationLedger_reachable
  have two: "runOps demoConfig
     [(1, Create 1 15 10), (2, Create 2 15 10), (3, ChargeFees 900000000000000000)] emptyLedger
     = Inr truncationLedger
   \<and> getFeeAdjustedCollateral truncationLedger (rawTotalPositionCollateral truncationLedger)
       = Inr 27
   \<and> sumRawCollateral truncationLedger = 30
   \<and> sumPositionCollateral truncationLedger \<le> 27
   \<and> 27 < sumPositionCollateral truncationLedger + max 1 (collateralizedCount truncationLedger)"
    by auto
  have tf': "transferFree [(1, Create 2 1 0), (1, Create 1 10 0), (1, RequestTransferPosition 1),
      (2, ChargeFees 900000000000000000)]"
    by simp
  have v: "rawTotalPositionCollateral strandedLedger = 11"
    "overwrittenCollateral (TransferPositionPassedRequest 1 2) strandedLedger = 1"
    "rawTotalPositionCollateral strandedLedgerAfter = 11"
    by (simp_all add: strandedLedger_def strandedLedgerAfter_def)
  from solvency [OF strandedLedger_reachable, of 1 11 "TransferPositionPassedRequest 1 2"
      strandedLedgerAfter] tf' strandedLedger_transfer v
  have "sumRawCollateral strandedLedger = 11 \<and> sumRawCollateral strandedLedgerAfter = 10"
    by auto
  with one tf two v strandedLedger_reachable strandedLedger_transfer show ?thesis
    by simp
qed

text \<open>
  The claim as stated fails: two positions of 15 each, then fees that lower the multiplier to
  0.9. The aggregate of 30 is worth 27; each position is worth 13 (13.5 truncated), 26 together.
\<close>

theorem solvency_counterexample:
  "runOps demoConfig
     [(1, Create 1 15 10), (2, Create 2 15 10), (3, ChargeFees 900000000000000000)] emptyLedger
     = Inr truncationLedger
   \<and> getFeeAdjustedCollateral truncationLedger (rawTotalPositionCollateral truncationLedger)
       = Inr 27
   \<and> sumPositionCollateral truncationLedger = 26"
  using truncationLedger_reachable truncationLedger_sum
  by (simp add: truncationLedger_def fee_defs arith_defs)

section \<open>The minimum size of a position\<close>

text \<open>\<open>_reduceSponsorPosition\<close> deletes the position or leaves it at the minimum size at least.\<close>

lemma reduceSponsorPosition_size:
  assumes "reduceSponsorPosition cfg st s t c w = Inr st'"
  shows "positions st' s = emptyPosition
     \<or> minSponsorTokens cfg \<le> tokensOutstanding (positions st' s)"
proof -
  from assms obtain whole where
    r: "(if whole then bindE (deleteSponsorPosition st s) (\<lambda>(st', _). Inr st')
         else bindE (decrementCollateralBalances st s c) (\<lambda>(st1, _).
           bindE (FixedPoint_sub (tokensOutstanding (positions st1 s)) t) (\<lambda>newTokenCount.
           bindE (require (minSponsorTokens cfg \<le> newTokenCount) BelowMinimumSponsorPosition) (\<lambda>_.
           bindE (FixedPoint_sub (withdrawalRequestAmount (positions st1 s)) w) (\<lambda>amount'.
           bindE (FixedPoint_sub (totalTokensOutstanding st1) t) (\<lambda>tokens'.
           Inr ((setPosition st1 s ((positions st1 s)
                   \<lparr>tokensOutstanding := newTokenCount, withdrawalRequestAmount := amount'\<rparr>))
                 \<lparr>totalTokensOutstanding := tokens'\<rparr>))))))) = Inr st'"
    by (auto simp: reduceSponsorPosition_def bindE_eq_Inr)
  show ?thesis
  proof (cases whole)
    case True
    with r show ?thesis
      by (auto simp: bindE_eq_Inr dest!: deleteSponsorPosition_Inr)
  next
    case False
    with r show ?thesis
      by (auto simp: bindE_eq_Inr)
  qed
qed

lemma tokens_to_zero:
  assumes e: "execOp cfg now op st = Inr st'"
    and pos: "0 < tokensOutstanding (positions st a)"
    and zero: "tokensOutstanding (positions st' a) = 0"
  shows "closesPosition op a (tokensOutstanding (positions st a))
       \<and> rawCollateral (positions st' a) = 0
     \<or> (\<exists>s. op = TransferPositionPassedRequest s a \<and> s \<noteq> a
          \<and> tokensOutstanding (positions st s) = 0 \<and> 0 < rawCollateral (positions st s)
          \<and> positions st' a = (positions st s)\<lparr>transferPositionRequestPassTimestamp := 0\<rparr>)"
proof -
  from execOp_shape [OF e] consider
    (upd) b where "positionUpdate cfg op st b st'"
    | (tr) y new where "op = TransferPositionPassedRequest y new"
        "transferPositionPassedRequest now y new st = Inr (st', [])"
    | (fee) m where "op = ChargeFees m" "m \<le> cumulativeFeeMultiplier st"
        "st' = st\<lparr>cumulativeFeeMultiplier := m\<rparr>"
    by blast
  then show ?thesis
  proof cases
    case upd
    show ?thesis
    proof (cases "b = a")
      case False
      with positionUpdate_other [OF upd, of a] pos zero show ?thesis by simp
    next
      case True
      with upd pos zero show ?thesis
        by (auto simp: positionUpdate_def)
    qed
  next
    case tr
    from tr(2) obtain c where c: "getFeeAdjustedCollateral st (rawCollateral (positions st y)) = Inr c"
        "0 < c"
      and z: "getFeeAdjustedCollateral st (rawCollateral (positions st new)) = Inr 0"
      and st': "st' = st\<lparr>positions := (positions st)
              (new := (positions st y)\<lparr>transferPositionRequestPassTimestamp := 0\<rparr>,
               y := emptyPosition)\<rparr>"
      by (auto simp: transfer_Inr)
    from c have ry: "0 < rawCollateral (positions st y)"
      by (rule getFeeAdjustedCollateral_pos)
    from c z have ne: "y \<noteq> new" by auto
    show ?thesis
    proof (cases "a = y")
      case True
      with tr(1) st' show ?thesis by simp
    next
      case False
      show ?thesis
      proof (cases "a = new")
        case True
        with False ne pos zero ry tr(1) show ?thesis
          by (simp add: st')
      next
        case n: False
        with False pos zero show ?thesis
          by (simp add: st')
      qed
    qed
  next
    case fee
    with pos zero show ?thesis by simp
  qed
qed

text \<open>
  Claim C3, amended. In every ledger reached from the empty one by successful calls, a position
  with tokens outstanding has at least \<open>minSponsorTokens\<close> of them. In every ledger and
  deployment, a successful call takes a position's tokens from a positive count to zero in two
  ways only: the full closure of that position (its sponsor redeems all the tokens, or
  transfers the position away), which leaves the position without collateral; or a
  \<open>transferPositionPassedRequest\<close> of another sponsor, who holds collateral and no tokens, onto
  that position, which then holds the sender's collateral. In a ledger reached from the empty
  one in a deployment whose \<open>minSponsorTokens\<close> is positive the second way does not occur.
\<close>

theorem minimum_size:
  "(runOps cfg ops emptyLedger = Inr st \<longrightarrow>
      (0 < tokensOutstanding (positions st a)
         \<longrightarrow> minSponsorTokens cfg \<le> tokensOutstanding (positions st a))
      \<and> (0 < minSponsorTokens cfg \<and> execOp cfg now op st = Inr st'
           \<and> 0 < tokensOutstanding (positions st a) \<and> tokensOutstanding (positions st' a) = 0
         \<longrightarrow> closesPosition op a (tokensOutstanding (positions st a))
           \<and> rawCollateral (positions st' a) = 0))
   \<and> (execOp cfg now op st = Inr st'
        \<and> 0 < tokensOutstanding (positions st a) \<and> tokensOutstanding (positions st' a) = 0
      \<longrightarrow> closesPosition op a (tokensOutstanding (positions st a))
          \<and> rawCollateral (positions st' a) = 0
        \<or> (\<exists>s. op = TransferPositionPassedRequest s a \<and> s \<noteq> a
             \<and> tokensOutstanding (positions st s) = 0 \<and> 0 < rawCollateral (positions st s)
             \<and> positions st' a
                 = (positions st s)\<lparr>transferPositionRequestPassTimestamp := 0\<rparr>))"
proof -
  have size: "0 < tokensOutstanding (positions st a)
         \<longrightarrow> minSponsorTokens cfg \<le> tokensOutstanding (positions st a)"
    if "runOps cfg ops emptyLedger = Inr st"
    using runOps_inv [OF that] by (simp add: ledgerInv_def)
  have closure: "closesPosition op a (tokensOutstanding (positions st a))
         \<and> rawCollateral (positions st' a) = 0"
    if run: "runOps cfg ops emptyLedger = Inr st"
      and min: "0 < minSponsorTokens cfg" and e: "execOp cfg now op st = Inr st'"
      and pos: "0 < tokensOutstanding (positions st a)"
      and zero: "tokensOutstanding (positions st' a) = 0"
  proof -
    from runOps_inv [OF run] min
    have j: "\<forall>s. 0 < rawCollateral (positions st s) \<longrightarrow> 0 < tokensOutstanding (positions st s)"
      by (simp add: ledgerInv_def)
    from tokens_to_zero [OF e pos zero] show ?thesis
    proof
      assume "closesPosition op a (tokensOutstanding (positions st a))
         \<and> rawCollateral (positions st' a) = 0"
      then show ?thesis .
    next
      assume "\<exists>s. op = TransferPositionPassedRequest s a \<and> s \<noteq> a
          \<and> tokensOutstanding (positions st s) = 0 \<and> 0 < rawCollateral (positions st s)
          \<and> positions st' a = (positions st s)\<lparr>transferPositionRequestPassTimestamp := 0\<rparr>"
      then obtain s where t: "tokensOutstanding (positions st s) = 0"
        and r: "0 < rawCollateral (positions st s)"
        by blast
      from j have "0 < rawCollateral (positions st s) \<longrightarrow> 0 < tokensOutstanding (positions st s)"
        by (rule spec)
      with t r have False by simp
      then show ?thesis ..
    qed
  qed
  from size closure tokens_to_zero [of cfg now op st st' a] show ?thesis
    by blast
qed

text \<open>
  With a minimum of 10: sponsor 1 creates 10 tokens and redeems them all. Without a minimum:
  the transfer of sponsor 1, who holds no tokens, onto sponsor 2 in \<open>overwriteBefore\<close>.
\<close>

theorem minimum_size_witness:
  "runOps minTenConfig [(1, Create 1 15 10)] emptyLedger = Inr
     (emptyLedger\<lparr>positions := (positions emptyLedger)(1 := emptyPosition
            \<lparr>rawCollateral := 15, tokensOutstanding := 10\<rparr>),
          rawTotalPositionCollateral := 15, totalTokensOutstanding := 10\<rparr>)
   \<and> minSponsorTokens minTenConfig \<le> 10
   \<and> execOp minTenConfig 2 (Redeem 1 10)
        (emptyLedger\<lparr>positions := (positions emptyLedger)(1 := emptyPosition
            \<lparr>rawCollateral := 15, tokensOutstanding := 10\<rparr>),
          rawTotalPositionCollateral := 15, totalTokensOutstanding := 10\<rparr>) = Inr emptyLedger
   \<and> closesPosition (Redeem 1 10) 1 10
   \<and> rawCollateral (positions emptyLedger 1) = 0
   \<and> execOp demoConfig 24 (TransferPositionPassedRequest 1 2) overwriteBefore
       = Inr overwriteAfter
   \<and> tokensOutstanding (positions overwriteBefore 2) = 5
   \<and> tokensOutstanding (positions overwriteAfter 2) = 0
   \<and> tokensOutstanding (positions overwriteBefore 1) = 0
   \<and> positions overwriteAfter 2
       = (positions overwriteBefore 1)\<lparr>transferPositionRequestPassTimestamp := 0\<rparr>"
proof -
  let ?st = "emptyLedger\<lparr>positions := (positions emptyLedger)(1 := emptyPosition
            \<lparr>rawCollateral := 15, tokensOutstanding := 10\<rparr>),
          rawTotalPositionCollateral := 15, totalTokensOutstanding := 10\<rparr>"
  have r: "runOps minTenConfig [(1, Create 1 15 10)] emptyLedger = Inr ?st"
    by (simp add: eval_defs minTenConfig_def)
  have e: "execOp minTenConfig 2 (Redeem 1 10) ?st = Inr emptyLedger"
    by (simp add: eval_defs minTenConfig_def fun_upd_idem)
  have t: "tokensOutstanding (positions ?st 1) = 10" "tokensOutstanding (positions emptyLedger 1) = 0"
    "0 < minSponsorTokens minTenConfig" "minSponsorTokens minTenConfig \<le> 10"
    by (simp_all add: emptyLedger_def minTenConfig_def)
  from minimum_size [of minTenConfig "[(1, Create 1 15 10)]" ?st 1 2 "Redeem 1 10" emptyLedger]
    r e t
  have one: "closesPosition (Redeem 1 10) 1 10 \<and> rawCollateral (positions emptyLedger 1) = 0"
    by simp
  have o: "execOp demoConfig 24 (TransferPositionPassedRequest 1 2) overwriteBefore
       = Inr overwriteAfter"
    by (simp add: eval_defs overwriteBefore_def overwriteAfter_def fun_eq_iff)
  have u: "tokensOutstanding (positions overwriteBefore 2) = 5"
    "tokensOutstanding (positions overwriteAfter 2) = 0"
    by (simp_all add: overwriteBefore_def overwriteAfter_def)
  from minimum_size [of demoConfig "[]" overwriteBefore 2 24 "TransferPositionPassedRequest 1 2"
      overwriteAfter] o u
  have two: "tokensOutstanding (positions overwriteBefore 1) = 0
   \<and> positions overwriteAfter 2
       = (positions overwriteBefore 1)\<lparr>transferPositionRequestPassTimestamp := 0\<rparr>"
    by simp
  from r e t one o u two show ?thesis
    by simp
qed

text \<open>
  The claim as stated fails when \<open>minSponsorTokens\<close> is zero. Sponsor 2 holds 5 tokens and no
  collateral (withdrawn through a request); sponsor 1 holds collateral and no tokens. Sponsor 1
  transfers its position to sponsor 2: the 5 tokens of sponsor 2 become 0 without sponsor 2
  closing anything, and sponsor 2 now holds 10 of collateral.
\<close>

theorem minimum_size_counterexample:
  "runOps demoConfig
     [(1, Create 2 10 5), (2, RequestWithdrawal 2 10), (12, WithdrawPassedRequest 2),
      (13, Create 1 10 0), (14, RequestTransferPosition 1)] emptyLedger = Inr overwriteBefore
   \<and> execOp demoConfig 24 (TransferPositionPassedRequest 1 2) overwriteBefore
       = Inr overwriteAfter
   \<and> tokensOutstanding (positions overwriteBefore 2) = 5
   \<and> tokensOutstanding (positions overwriteAfter 2) = 0
   \<and> rawCollateral (positions overwriteAfter 2) = 10
   \<and> \<not> closesPosition (TransferPositionPassedRequest 1 2) 2 5"
  by (simp add: eval_defs overwriteBefore_def overwriteAfter_def fun_eq_iff)

section \<open>The global collateralization ratio\<close>

lemma getCollateralizationRatio_mono:
  assumes r: "getCollateralizationRatio g t = Inr r" and le: "g' \<le> g"
  shows "\<exists>r'. getCollateralizationRatio g' t = Inr r' \<and> r' \<le> r"
proof (cases "0 < t")
  case False
  with r show ?thesis by (simp add: getCollateralizationRatio_def)
next
  case True
  with r have b: "g * FP_SCALING_FACTOR \<le> UINT_MAX" and v: "r = g * FP_SCALING_FACTOR div t"
    by (auto simp: getCollateralizationRatio_def FixedPoint_div_def split: if_splits)
  from le have m: "g' * FP_SCALING_FACTOR \<le> g * FP_SCALING_FACTOR"
    by (rule mult_le_mono1)
  from m b have "g' * FP_SCALING_FACTOR \<le> UINT_MAX"
    by (rule order_trans)
  moreover from m have "g' * FP_SCALING_FACTOR div t \<le> g * FP_SCALING_FACTOR div t"
    by (rule div_le_mono)
  ultimately show ?thesis
    using True v by (simp add: getCollateralizationRatio_def FixedPoint_div_def)
qed

lemma checkPositionCollateralization_lower_total:
  assumes ok: "checkPositionCollateralization st p = Inr True"
    and g': "getFeeAdjustedCollateral st total' = Inr g'"
    and le: "total' \<le> rawTotalPositionCollateral st"
  shows "checkPositionCollateralization (st\<lparr>rawTotalPositionCollateral := total'\<rparr>) p = Inr True"
proof -
  from ok obtain c g global this where c: "getFeeAdjustedCollateral st (rawCollateral p) = Inr c"
    and g: "getFeeAdjustedCollateral st (rawTotalPositionCollateral st) = Inr g"
    and gl: "getCollateralizationRatio g (totalTokensOutstanding st) = Inr global"
    and th: "getCollateralizationRatio c (tokensOutstanding p) = Inr this"
    and cmp: "\<not> this < global"
    by (auto simp: checkPositionCollateralization_def checkCollateralization_def bindE_eq_Inr)
  from le have "total' * cumulativeFeeMultiplier st
      \<le> rawTotalPositionCollateral st * cumulativeFeeMultiplier st"
    by (rule mult_le_mono1)
  then have "total' * cumulativeFeeMultiplier st div FP_SCALING_FACTOR
      \<le> rawTotalPositionCollateral st * cumulativeFeeMultiplier st div FP_SCALING_FACTOR"
    by (rule div_le_mono)
  with g g' have "g' \<le> g"
    by (simp add: getFeeAdjustedCollateral_Inr)
  from getCollateralizationRatio_mono [OF gl this] obtain global'
    where gl': "getCollateralizationRatio g' (totalTokensOutstanding st) = Inr global'"
      and "global' \<le> global"
    by blast
  with cmp have cmp': "\<not> this < global'" by simp
  have s: "getFeeAdjustedCollateral (st\<lparr>rawTotalPositionCollateral := total'\<rparr>) x
      = getFeeAdjustedCollateral st x" for x
    by (simp add: getFeeAdjustedCollateral_def)
  from c g' gl' th cmp' show ?thesis
    by (simp add: checkPositionCollateralization_def checkCollateralization_def s)
qed

lemma getFeeAdjustedCollateral_feeAdjusted:
  "getFeeAdjustedCollateral st raw = Inr g \<Longrightarrow> g = feeAdjusted st raw"
  by (simp add: getFeeAdjustedCollateral_Inr feeAdjusted_def)

lemma getCollateralizationRatio_ratio:
  "getCollateralizationRatio c t = Inr r \<Longrightarrow> r = ratio c t"
  by (auto simp: getCollateralizationRatio_def FixedPoint_div_def ratio_def split: if_splits)

lemma checkCollateralization_ratio:
  "checkCollateralization st c n = Inr b \<Longrightarrow> b = (globalRatio st \<le> ratio c n)"
  by (auto simp: checkCollateralization_def bindE_eq_Inr globalRatio_def
      dest!: getFeeAdjustedCollateral_feeAdjusted getCollateralizationRatio_ratio)

lemma checkPositionCollateralization_ratio:
  "checkPositionCollateralization st p = Inr b \<Longrightarrow>
   b = (globalRatio st \<le> ratio (feeAdjusted st (rawCollateral p)) (tokensOutstanding p))"
  by (auto simp: checkPositionCollateralization_def bindE_eq_Inr
      dest!: getFeeAdjustedCollateral_feeAdjusted checkCollateralization_ratio)

lemma credited_upper:
  fixes r c m F d :: nat
  assumes F: "0 < F" and d: "d = c * F div m"
  shows "(r + d) * m div F \<le> r * m div F + c"
proof -
  have "d * m \<le> c * F"
    by (simp add: d)
  then have "(r + d) * m \<le> r * m + c * F"
    by (simp add: add_mult_distrib)
  then have "(r + d) * m div F \<le> (r * m + c * F) div F"
    by (rule div_le_mono)
  also from F have "\<dots> = r * m div F + c"
    by simp
  finally show ?thesis .
qed

lemma credited_lower:
  fixes r c m F d :: nat
  assumes F: "0 < F" and m: "0 < m" and mF: "m \<le> F" and d: "d = c * F div m"
  shows "r * m div F + c \<le> (r + d) * m div F + 1"
proof -
  from m have "c * F < (d + 1) * m"
    using div_less_iff_less_mult [of m "c * F" "d + 1"] by (simp add: d)
  with mF have b: "c * F < d * m + F"
    by simp
  have a: "(r * m div F) * F \<le> r * m"
    by simp
  from a b have "(r * m div F) * F + c * F \<le> (r * m + d * m) + F"
    by linarith
  then have "(r * m div F + c) * F \<le> (r + d) * m + F"
    by (simp only: add_mult_distrib)
  with F have "r * m div F + c \<le> ((r + d) * m + F) div F"
    by (simp add: less_eq_div_iff_mult_less_eq)
  moreover from F have "((r + d) * m + F) div F = (r + d) * m div F + 1"
    using div_add_self2 [of F "(r + d) * m"] by simp
  ultimately show ?thesis
    by simp
qed

lemma create_Inr:
  assumes "create cfg s c n st = Inr (st', effs)"
  shows "\<exists>g d. getFeeAdjustedCollateral st (rawCollateral (positions st s)) = Inr g
     \<and> (checkCollateralization st (g + c) (tokensOutstanding (positions st s) + n) = Inr True
        \<or> checkCollateralization st c n = Inr True)
     \<and> convertToRawCollateral st c = Inr d
     \<and> cumulativeFeeMultiplier st' = cumulativeFeeMultiplier st
     \<and> rawCollateral (positions st' s) = rawCollateral (positions st s) + d
     \<and> tokensOutstanding (positions st' s) = tokensOutstanding (positions st s) + n"
  using assms
  apply (clarsimp simp: create_def Let_def bindE_eq_Inr FixedPoint_add_def split: if_splits)
   apply (drule incrementCollateralBalances_Inr, auto simp: setPosition_def)+
  done

lemma ratio_mono: "a \<le> b \<Longrightarrow> ratio a t \<le> ratio b t"
  by (simp add: ratio_def div_le_mono)

text \<open>
  Claim C2, amended. The ratios are those of the specification: collateral over tokens at 18
  decimals, truncated, zero without tokens. After a successful \<open>withdraw\<close> the ratio of the
  caller's resulting position is not strictly below the resulting global ratio. A successful
  \<open>create\<close> guarantees something else, against the global ratio of the ledger before the
  call: not below it is the ratio of the collateral the position was worth plus the collateral
  added, over the resulting tokens, or else the ratio of the collateral and tokens added. The
  resulting position is worth that collateral exactly at multiplier 1.0; at a lower multiplier
  it is worth that or one smallest unit less, and never more. Hence at multiplier 1.0 the
  ratio of the resulting position, or else that of the collateral and tokens added, is not
  below the global ratio before the call; at a lower multiplier the same holds of the
  resulting position with one smallest unit of collateral more.
\<close>

theorem ratio_after_withdraw_and_create:
  "(withdraw s c st = Inr (st', w, effs) \<longrightarrow> globalRatio st' \<le> positionRatio st' s)
   \<and> (create cfg s c n st = Inr (st', effs) \<longrightarrow>
      (globalRatio st \<le> ratio (feeAdjusted st (rawCollateral (positions st s)) + c)
                           (tokensOutstanding (positions st s) + n)
        \<or> globalRatio st \<le> ratio c n)
      \<and> tokensOutstanding (positions st' s) = tokensOutstanding (positions st s) + n
      \<and> feeAdjusted st' (rawCollateral (positions st' s))
          \<le> feeAdjusted st (rawCollateral (positions st s)) + c
      \<and> (cumulativeFeeMultiplier st \<le> FP_SCALING_FACTOR \<longrightarrow>
            feeAdjusted st (rawCollateral (positions st s)) + c
              \<le> feeAdjusted st' (rawCollateral (positions st' s)) + 1)
      \<and> (cumulativeFeeMultiplier st = FP_SCALING_FACTOR \<longrightarrow>
            feeAdjusted st' (rawCollateral (positions st' s))
              = feeAdjusted st (rawCollateral (positions st s)) + c)
      \<and> (cumulativeFeeMultiplier st \<le> FP_SCALING_FACTOR \<longrightarrow>
            globalRatio st \<le> ratio (feeAdjusted st' (rawCollateral (positions st' s)) + 1)
                                 (tokensOutstanding (positions st' s))
            \<or> globalRatio st \<le> ratio c n)
      \<and> (cumulativeFeeMultiplier st = FP_SCALING_FACTOR \<longrightarrow>
            globalRatio st \<le> positionRatio st' s \<or> globalRatio st \<le> ratio c n))"
proof -
  have wd: "globalRatio st' \<le> positionRatio st' s"
    if "withdraw s c st = Inr (st', w, effs)"
  proof -
    let ?p = "\<lambda>d. (positions st s)\<lparr>rawCollateral := rawCollateral (positions st s) - d\<rparr>"
    from that obtain d g' where
      st': "st' = st\<lparr>positions := (positions st)(s := ?p d),
               rawTotalPositionCollateral := rawTotalPositionCollateral st - d\<rparr>"
      and g': "getFeeAdjustedCollateral st (rawTotalPositionCollateral st - d) = Inr g'"
      and ok: "checkPositionCollateralization (setPosition st s (?p d)) (?p d) = Inr True"
      by (auto simp: withdraw_def bindE_eq_Inr dest!: decrementCollateralBalancesCheckGCR_Inr)
    have "checkPositionCollateralization
        ((setPosition st s (?p d))\<lparr>rawTotalPositionCollateral := rawTotalPositionCollateral st - d\<rparr>)
        (?p d) = Inr True"
      by (rule checkPositionCollateralization_lower_total [OF ok]) (simp_all add: g')
    then have "checkPositionCollateralization st' (positions st' s) = Inr True"
      by (simp add: st' setPosition_def)
    from checkPositionCollateralization_ratio [OF this] show ?thesis
      by (simp add: positionRatio_def)
  qed
  have cr: "(globalRatio st \<le> ratio (feeAdjusted st (rawCollateral (positions st s)) + c)
                           (tokensOutstanding (positions st s) + n)
        \<or> globalRatio st \<le> ratio c n)
      \<and> tokensOutstanding (positions st' s) = tokensOutstanding (positions st s) + n
      \<and> feeAdjusted st' (rawCollateral (positions st' s))
          \<le> feeAdjusted st (rawCollateral (positions st s)) + c
      \<and> (cumulativeFeeMultiplier st \<le> FP_SCALING_FACTOR \<longrightarrow>
            feeAdjusted st (rawCollateral (positions st s)) + c
              \<le> feeAdjusted st' (rawCollateral (positions st' s)) + 1)
      \<and> (cumulativeFeeMultiplier st = FP_SCALING_FACTOR \<longrightarrow>
            feeAdjusted st' (rawCollateral (positions st' s))
              = feeAdjusted st (rawCollateral (positions st s)) + c)
      \<and> (cumulativeFeeMultiplier st \<le> FP_SCALING_FACTOR \<longrightarrow>
            globalRatio st \<le> ratio (feeAdjusted st' (rawCollateral (positions st' s)) + 1)
                                 (tokensOutstanding (positions st' s))
            \<or> globalRatio st \<le> ratio c n)
      \<and> (cumulativeFeeMultiplier st = FP_SCALING_FACTOR \<longrightarrow>
            globalRatio st \<le> positionRatio st' s \<or> globalRatio st \<le> ratio c n)"
    if "create cfg s c n st = Inr (st', effs)"
  proof -
    let ?r = "rawCollateral (positions st s)"
    let ?m = "cumulativeFeeMultiplier st"
    let ?F = "FP_SCALING_FACTOR"
    from create_Inr [OF that] obtain g d where
      g: "getFeeAdjustedCollateral st ?r = Inr g"
      and chk: "checkCollateralization st (g + c) (tokensOutstanding (positions st s) + n) = Inr True
        \<or> checkCollateralization st c n = Inr True"
      and conv: "convertToRawCollateral st c = Inr d"
      and m': "cumulativeFeeMultiplier st' = ?m"
      and raw': "rawCollateral (positions st' s) = ?r + d"
      and tok': "tokensOutstanding (positions st' s) = tokensOutstanding (positions st s) + n"
      by blast
    from g have gv: "g = feeAdjusted st ?r"
      by (rule getFeeAdjustedCollateral_feeAdjusted)
    from conv have mpos: "0 < ?m" and dv: "d = c * ?F div ?m"
      by (simp_all add: convertToRawCollateral_Inr)
    from chk gv have a: "globalRatio st \<le> ratio (feeAdjusted st ?r + c)
                           (tokensOutstanding (positions st s) + n)
        \<or> globalRatio st \<le> ratio c n"
      by (auto dest!: checkCollateralization_ratio)
    have fa: "rawCollateral (positions st' s) * cumulativeFeeMultiplier st' div ?F
        = (?r + d) * ?m div ?F"
      by (simp add: m' raw')
    have up: "feeAdjusted st' (rawCollateral (positions st' s)) \<le> feeAdjusted st ?r + c"
      unfolding feeAdjusted_def fa by (rule credited_upper [OF _ dv]) simp
    have lo: "feeAdjusted st ?r + c \<le> feeAdjusted st' (rawCollateral (positions st' s)) + 1"
      if "?m \<le> ?F"
      unfolding feeAdjusted_def fa by (rule credited_lower [OF _ mpos that dv]) simp
    have un: "feeAdjusted st' (rawCollateral (positions st' s)) = feeAdjusted st ?r + c"
      if "?m = ?F"
      unfolding feeAdjusted_def fa using that by (simp add: dv add_mult_distrib)
    have near: "globalRatio st \<le> ratio (feeAdjusted st' (rawCollateral (positions st' s)) + 1)
                                 (tokensOutstanding (positions st' s))
            \<or> globalRatio st \<le> ratio c n"
      if le: "?m \<le> ?F"
    proof -
      from lo [OF le] have "ratio (feeAdjusted st ?r + c) (tokensOutstanding (positions st s) + n)
          \<le> ratio (feeAdjusted st' (rawCollateral (positions st' s)) + 1)
              (tokensOutstanding (positions st s) + n)"
        by (rule ratio_mono)
      with a show ?thesis
        unfolding tok' by (blast intro: order_trans)
    qed
    have exact: "globalRatio st \<le> positionRatio st' s \<or> globalRatio st \<le> ratio c n"
      if eq: "?m = ?F"
      using a unfolding positionRatio_def un [OF eq] tok' .
    from a tok' up lo un near exact show ?thesis
      by blast
  qed
  from wd cr show ?thesis
    by blast
qed

lemma gcrLedger_reachable:
  "runOps demoConfig [(1, Create 2 100 100), (2, Create 1 300 100)] emptyLedger = Inr gcrLedger"
  by (simp add: eval_defs gcrLedger_def fun_eq_iff)

text \<open>
  On \<open>gcrLedger\<close> (global ratio 2.0): sponsor 1 withdraws 50 and stays at 2.5, above the
  resulting global ratio 1.75; the same withdrawal by sponsor 2 would leave it at 0.5 and
  reverts. Sponsor 2 creates 100 tokens with 300 of collateral: the position is worth 100 before
  and 400 after, and 400 for 200 tokens is the global ratio before the call.
\<close>

theorem ratio_after_withdraw_and_create_witness:
  "withdraw 1 50 gcrLedger = Inr (gcrLedgerWithdrawn, 50, [CollateralTransfer 1 50])
   \<and> positionRatio gcrLedgerWithdrawn 1 = 2500000000000000000
   \<and> globalRatio gcrLedgerWithdrawn = 1750000000000000000
   \<and> withdraw 2 50 gcrLedger = Inl CRBelowGCR
   \<and> create demoConfig 2 300 100 gcrLedger
       = Inr (gcrLedgerAfter, [CollateralTransferFrom 2 300, TokenMint 2 100])
   \<and> cumulativeFeeMultiplier gcrLedger = FP_SCALING_FACTOR
   \<and> globalRatio gcrLedger = 2000000000000000000
   \<and> ratio (feeAdjusted gcrLedger (rawCollateral (positions gcrLedger 2)) + 300)
        (tokensOutstanding (positions gcrLedger 2) + 100) = 2000000000000000000
   \<and> tokensOutstanding (positions gcrLedgerAfter 2) = 200
   \<and> feeAdjusted gcrLedgerAfter (rawCollateral (positions gcrLedgerAfter 2)) = 400"
proof -
  have w: "withdraw 1 50 gcrLedger = Inr (gcrLedgerWithdrawn, 50, [CollateralTransfer 1 50])"
    by (simp add: eval_defs gcrLedger_def gcrLedgerWithdrawn_def fun_eq_iff)
  have r: "withdraw 2 50 gcrLedger = Inl CRBelowGCR"
    by (simp add: eval_defs gcrLedger_def)
  have c: "create demoConfig 2 300 100 gcrLedger
       = Inr (gcrLedgerAfter, [CollateralTransferFrom 2 300, TokenMint 2 100])"
    by (simp add: eval_defs gcrLedger_def gcrLedgerAfter_def fun_eq_iff)
  have v: "positionRatio gcrLedgerWithdrawn 1 = 2500000000000000000"
    "globalRatio gcrLedgerWithdrawn = 1750000000000000000"
    "cumulativeFeeMultiplier gcrLedger = FP_SCALING_FACTOR"
    "globalRatio gcrLedger = 2000000000000000000"
    "ratio (feeAdjusted gcrLedger (rawCollateral (positions gcrLedger 2)) + 300)
        (tokensOutstanding (positions gcrLedger 2) + 100) = 2000000000000000000"
    "feeAdjusted gcrLedger (rawCollateral (positions gcrLedger 2)) = 100"
    "tokensOutstanding (positions gcrLedger 2) = 100"
    by (simp_all add: positionRatio_def globalRatio_def ratio_def feeAdjusted_def
        gcrLedger_def gcrLedgerWithdrawn_def FP_SCALING_FACTOR_def)
  from ratio_after_withdraw_and_create
         [of 1 50 gcrLedger gcrLedgerWithdrawn 50 "[CollateralTransfer 1 50]" demoConfig 0]
       ratio_after_withdraw_and_create
         [of 2 300 gcrLedger gcrLedgerAfter 0 "[CollateralTransferFrom 2 300, TokenMint 2 100]"
            demoConfig 100]
       w r c v
  show ?thesis
    by simp
qed

text \<open>
  The claim as stated fails for \<open>create\<close>. Sponsor 2 holds 100 of collateral for 100 tokens,
  sponsor 1 holds 300 for 100: the global ratio is 2.0. Sponsor 2 creates 100 more tokens with
  300 of collateral; its position (400 for 200, ratio 2.0) is not below the ratio before the
  call, so the call succeeds, but the resulting global ratio is 700 for 300, above 2.0: the
  resulting position is strictly below the resulting global ratio.
\<close>

theorem ratio_after_withdraw_and_create_counterexample:
  "runOps demoConfig [(1, Create 2 100 100), (2, Create 1 300 100)] emptyLedger = Inr gcrLedger
   \<and> create demoConfig 2 300 100 gcrLedger
       = Inr (gcrLedgerAfter, [CollateralTransferFrom 2 300, TokenMint 2 100])
   \<and> positionRatio gcrLedgerAfter 2 = 2000000000000000000
   \<and> globalRatio gcrLedgerAfter = 2333333333333333333
   \<and> positionRatio gcrLedgerAfter 2 < globalRatio gcrLedgerAfter
   \<and> checkPositionCollateralization gcrLedgerAfter (positions gcrLedgerAfter 2) = Inr False"
proof -
  have "create demoConfig 2 300 100 gcrLedger
       = Inr (gcrLedgerAfter, [CollateralTransferFrom 2 300, TokenMint 2 100])"
    by (simp add: eval_defs gcrLedger_def gcrLedgerAfter_def fun_eq_iff)
  moreover have "checkPositionCollateralization gcrLedgerAfter (positions gcrLedgerAfter 2)
      = Inr False"
    by (simp add: gcrLedgerAfter_def internal_defs fee_defs arith_defs)
  moreover have "positionRatio gcrLedgerAfter 2 = 2000000000000000000"
    "globalRatio gcrLedgerAfter = 2333333333333333333"
    by (simp_all add: positionRatio_def globalRatio_def ratio_def feeAdjusted_def
        gcrLedgerAfter_def FP_SCALING_FACTOR_def)
  ultimately show ?thesis
    using gcrLedger_reachable by simp
qed

section \<open>Executing a passed withdrawal request\<close>

lemma removeCollateral_succeeds:
  assumes b: "raw * cumulativeFeeMultiplier st \<le> UINT_MAX"
    and d: "convertToRawCollateral st amt = Inr d" and le: "d \<le> raw"
  shows "removeCollateral st raw amt
     = Inr (raw - d, raw * cumulativeFeeMultiplier st div FP_SCALING_FACTOR
                     - (raw - d) * cumulativeFeeMultiplier st div FP_SCALING_FACTOR)"
proof -
  let ?m = "cumulativeFeeMultiplier st"
  have m: "(raw - d) * ?m \<le> raw * ?m"
    by (rule mult_le_mono1) simp
  from m b have b': "(raw - d) * ?m \<le> UINT_MAX"
    by (rule order_trans)
  from m have "(raw - d) * ?m div FP_SCALING_FACTOR \<le> raw * ?m div FP_SCALING_FACTOR"
    by (rule div_le_mono)
  with b b' d le show ?thesis
    by (simp add: removeCollateral_def getFeeAdjustedCollateral_def FixedPoint_mul_def
        FixedPoint_sub_def)
qed

lemma removed_le_amount:
  fixes R d m amt F :: nat
  assumes F: "0 < F" and dm: "d * m \<le> amt * F" and dR: "d \<le> R"
  shows "R * m div F - (R - d) * m div F \<le> amt"
proof -
  from dR have "R * m = (R - d) * m + d * m"
    by (simp add: add_mult_distrib [symmetric])
  with dm have "R * m \<le> (R - d) * m + amt * F"
    by simp
  then have "R * m div F \<le> ((R - d) * m + amt * F) div F"
    by (rule div_le_mono)
  also from F have "\<dots> = (R - d) * m div F + amt"
    by simp
  finally show ?thesis
    by simp
qed

text \<open>
  Claim C5, amended. In a ledger reached from the empty one by successful calls, for a position
  that holds fee-adjusted collateral \<open>c > 0\<close> and has a withdrawal request whose pass timestamp
  is nonzero and has passed, \<open>withdrawPassedRequest\<close> succeeds. It removes from the position and
  from the aggregate the raw equivalent \<open>d\<close> of \<open>min(requestAmount, c)\<close>, clears both
  request fields, and pays out the resulting fall of the fee-adjusted aggregate, \<open>g - g'\<close>
  with \<open>g\<close> the fee-adjusted aggregate before and \<open>g'\<close> after: at most
  \<open>min(requestAmount, c)\<close>, and exactly that when the multiplier is 1.0.
\<close>

theorem withdraw_passed_request:
  assumes run: "runOps cfg ops emptyLedger = Inr st"
    and nz: "withdrawalRequestPassTimestamp (positions st a) \<noteq> 0"
    and passed: "withdrawalRequestPassTimestamp (positions st a) \<le> now"
    and c: "getFeeAdjustedCollateral st (rawCollateral (positions st a)) = Inr c"
    and cpos: "0 < c"
  shows "\<exists>st' w d g g'. withdrawPassedRequest now a st = Inr (st', w, [CollateralTransfer a w])
     \<and> getFeeAdjustedCollateral st (rawTotalPositionCollateral st) = Inr g
     \<and> getFeeAdjustedCollateral st' (rawTotalPositionCollateral st') = Inr g'
     \<and> w = g - g'
     \<and> w \<le> min (withdrawalRequestAmount (positions st a)) c
     \<and> (cumulativeFeeMultiplier st = FP_SCALING_FACTOR
          \<longrightarrow> w = min (withdrawalRequestAmount (positions st a)) c)
     \<and> convertToRawCollateral st (min (withdrawalRequestAmount (positions st a)) c) = Inr d
     \<and> positions st' a = (positions st a)
          \<lparr>rawCollateral := rawCollateral (positions st a) - d,
           withdrawalRequestAmount := 0, withdrawalRequestPassTimestamp := 0\<rparr>
     \<and> rawTotalPositionCollateral st' = rawTotalPositionCollateral st - d"
proof -
  let ?p = "positions st a"
  let ?r = "rawCollateral ?p"
  let ?R = "rawTotalPositionCollateral st"
  let ?m = "cumulativeFeeMultiplier st"
  let ?F = "FP_SCALING_FACTOR"
  let ?amt = "min (withdrawalRequestAmount ?p) c"
  define d where "d = ?amt * ?F div ?m"
  define w where "w = ?R * ?m div ?F - (?R - d) * ?m div ?F"
  from runOps_inv [OF run] have inv: "ledgerInv cfg st" .
  then have "sumRawCollateral st \<le> ?R" and R: "?R * ?m \<le> UINT_MAX"
    by (simp_all add: ledgerInv_def)
  with rawCollateral_le_sum [of st a] have rR: "?r \<le> ?R"
    by simp
  from c have r: "?r * ?m \<le> UINT_MAX" and cv: "c = ?r * ?m div ?F"
    by (simp_all add: getFeeAdjustedCollateral_Inr)
  from cpos cv have m: "0 < ?m"
    by (cases "?m = 0") simp_all
  have "?amt * ?F \<le> c * ?F"
    by (rule mult_le_mono1) simp
  also have "\<dots> \<le> ?r * ?m"
    by (simp add: cv)
  finally have amt: "?amt * ?F \<le> ?r * ?m" .
  from amt r have "?amt * ?F \<le> UINT_MAX"
    by (rule order_trans)
  with m have conv: "convertToRawCollateral st ?amt = Inr d"
    by (simp add: convertToRawCollateral_Inr d_def)
  from amt have "?amt * ?F div ?m \<le> ?r * ?m div ?m"
    by (rule div_le_mono)
  with m have dr: "d \<le> ?r"
    by (simp add: d_def)
  with rR have dR: "d \<le> ?R"
    by simp
  have dm: "d * ?m \<le> ?amt * ?F"
    by (simp add: d_def)
  note rp = removeCollateral_succeeds [OF r conv dr]
  note rt = removeCollateral_succeeds [OF R conv dR]
  from c cpos have gp: "getPositionData st a = Inr ?p"
    by (simp add: getPositionData_Inr)
  have sel: "(if c < withdrawalRequestAmount ?p then c else withdrawalRequestAmount ?p) = ?amt"
    by (simp add: min_def)
  let ?st' = "setPosition (st\<lparr>positions := (positions st)(a := ?p\<lparr>rawCollateral := ?r - d\<rparr>),
                  rawTotalPositionCollateral := ?R - d\<rparr>) a
               (resetWithdrawalRequest (?p\<lparr>rawCollateral := ?r - d\<rparr>))"
  have res: "withdrawPassedRequest now a st = Inr (?st', w, [CollateralTransfer a w])"
    using nz passed
    by (simp add: withdrawPassedRequest_def gp c Let_def sel decrementCollateralBalances_def
        rp rt w_def setPosition_def)
  have le: "w \<le> ?amt"
    unfolding w_def by (rule removed_le_amount [OF _ dm dR]) simp
  have unit: "w = ?amt" if u: "?m = ?F"
  proof -
    from u have "d = ?amt" by (simp add: d_def)
    with dR u show ?thesis by (simp add: w_def)
  qed
  have pos: "positions ?st' a = ?p\<lparr>rawCollateral := ?r - d,
           withdrawalRequestAmount := 0, withdrawalRequestPassTimestamp := 0\<rparr>"
    by (simp add: resetWithdrawalRequest_def)
  have tot: "rawTotalPositionCollateral ?st' = ?R - d"
    by simp
  have g: "getFeeAdjustedCollateral st ?R = Inr (?R * ?m div ?F)"
    using R by (simp add: getFeeAdjustedCollateral_Inr)
  have "(?R - d) * ?m \<le> ?R * ?m"
    by (rule mult_le_mono1) simp
  from this R have "(?R - d) * ?m \<le> UINT_MAX"
    by (rule order_trans)
  then have g': "getFeeAdjustedCollateral ?st' (rawTotalPositionCollateral ?st')
      = Inr ((?R - d) * ?m div ?F)"
    by (simp add: getFeeAdjustedCollateral_Inr)
  have wv: "w = ?R * ?m div ?F - (?R - d) * ?m div ?F"
    by (simp add: w_def)
  from res g g' wv le unit conv pos tot show ?thesis
    by blast
qed

lemma feeLedger_reachable:
  "runOps demoConfig
     [(1, Create 1 50000000000000000000 10), (2, RequestWithdrawal 1 50000000000000000000),
      (3, ChargeFees 900000000000000000)] emptyLedger = Inr feeLedger"
  by (simp add: eval_defs feeLedger_def)

lemma twoSponsorLedger_reachable:
  "runOps demoConfig
     [(1, Create 2 5 0), (1, Create 1 11 1), (2, RequestWithdrawal 1 1),
      (3, ChargeFees 900000000000000000)] emptyLedger = Inr twoSponsorLedger"
  by (simp add: eval_defs twoSponsorLedger_def fun_eq_iff)

text \<open>
  The scenario of the specification: 50 requested, fees then lower the multiplier to 0.9 and the
  position is worth 45; 45 is paid out. A request of 5 at multiplier 1.0: 5 is paid out. And
  two sponsors at multiplier 0.9, where the position of the caller is worth 9 before and after
  while the aggregate falls from 14 to 13: the fall of the aggregate, 1, is paid out.
\<close>

theorem withdraw_passed_request_witness:
  "runOps demoConfig
     [(1, Create 1 50000000000000000000 10), (2, RequestWithdrawal 1 50000000000000000000),
      (3, ChargeFees 900000000000000000)] emptyLedger = Inr feeLedger
   \<and> withdrawalRequestAmount (positions feeLedger 1) = 50000000000000000000
   \<and> getFeeAdjustedCollateral feeLedger (rawCollateral (positions feeLedger 1))
       = Inr 45000000000000000000
   \<and> withdrawPassedRequest 12 1 feeLedger
       = Inr (feeLedgerAfter, 45000000000000000000,
              [CollateralTransfer 1 45000000000000000000])
   \<and> cumulativeFeeMultiplier requestsLedger = FP_SCALING_FACTOR
   \<and> (\<exists>st'. withdrawPassedRequest 12 1 requestsLedger = Inr (st', 5, [CollateralTransfer 1 5]))
   \<and> withdrawPassedRequest 12 1 twoSponsorLedger
       = Inr (twoSponsorLedgerAfter, 1, [CollateralTransfer 1 1])
   \<and> getFeeAdjustedCollateral twoSponsorLedger (rawTotalPositionCollateral twoSponsorLedger)
       = Inr 14
   \<and> getFeeAdjustedCollateral twoSponsorLedgerAfter
         (rawTotalPositionCollateral twoSponsorLedgerAfter) = Inr 13
   \<and> positionCollateral twoSponsorLedger 1 = 9
   \<and> positionCollateral twoSponsorLedgerAfter 1 = 9"
proof -
  have c2: "getFeeAdjustedCollateral twoSponsorLedger
      (rawCollateral (positions twoSponsorLedger 1)) = Inr 9"
    by (simp add: twoSponsorLedger_def fee_defs arith_defs)
  have t2: "withdrawalRequestPassTimestamp (positions twoSponsorLedger 1) \<noteq> 0"
    "withdrawalRequestPassTimestamp (positions twoSponsorLedger 1) \<le> 12"
    by (simp_all add: twoSponsorLedger_def)
  have e2: "withdrawPassedRequest 12 1 twoSponsorLedger
       = Inr (twoSponsorLedgerAfter, 1, [CollateralTransfer 1 1])"
    by (simp add: eval_defs twoSponsorLedger_def twoSponsorLedgerAfter_def fun_eq_iff)
  from withdraw_passed_request [OF twoSponsorLedger_reachable t2 c2] e2
  have g2: "getFeeAdjustedCollateral twoSponsorLedger
        (rawTotalPositionCollateral twoSponsorLedger) = Inr 14
      \<and> getFeeAdjustedCollateral twoSponsorLedgerAfter
         (rawTotalPositionCollateral twoSponsorLedgerAfter) = Inr 13"
    by (simp add: twoSponsorLedger_def twoSponsorLedgerAfter_def fee_defs arith_defs)
  have p2: "positionCollateral twoSponsorLedger 1 = 9"
    "positionCollateral twoSponsorLedgerAfter 1 = 9"
    by (simp_all add: positionCollateral_def twoSponsorLedger_def twoSponsorLedgerAfter_def
        fee_defs arith_defs)
  have c: "getFeeAdjustedCollateral feeLedger (rawCollateral (positions feeLedger 1))
       = Inr 45000000000000000000"
    by (simp add: feeLedger_def fee_defs arith_defs)
  have t: "withdrawalRequestPassTimestamp (positions feeLedger 1) \<noteq> 0"
    "withdrawalRequestPassTimestamp (positions feeLedger 1) \<le> 12"
    "withdrawalRequestAmount (positions feeLedger 1) = 50000000000000000000"
    by (simp_all add: feeLedger_def)
  have e: "withdrawPassedRequest 12 1 feeLedger
       = Inr (feeLedgerAfter, 45000000000000000000,
              [CollateralTransfer 1 45000000000000000000])"
    by (simp add: eval_defs feeLedger_def feeLedgerAfter_def)
  have c': "getFeeAdjustedCollateral requestsLedger (rawCollateral (positions requestsLedger 1))
       = Inr 15"
    by (simp add: requestsLedger_def fee_defs arith_defs)
  have t': "withdrawalRequestPassTimestamp (positions requestsLedger 1) \<noteq> 0"
    "withdrawalRequestPassTimestamp (positions requestsLedger 1) \<le> 12"
    "withdrawalRequestAmount (positions requestsLedger 1) = 5"
    "cumulativeFeeMultiplier requestsLedger = FP_SCALING_FACTOR"
    by (simp_all add: requestsLedger_def)
  from withdraw_passed_request [OF requestsLedger_reachable t'(1) t'(2) c'] t'
  have u: "\<exists>st'. withdrawPassedRequest 12 1 requestsLedger = Inr (st', 5, [CollateralTransfer 1 5])"
    by auto
  from withdraw_passed_request [OF feeLedger_reachable t(1) t(2) c] feeLedger_reachable c t e u t'
    e2 g2 p2
  show ?thesis
    by simp
qed

text \<open>
  The claim as stated fails twice. A position of raw collateral 11 with a request of 1, after
  fees lower the multiplier to 0.9, is worth 9 (9.9 truncated); the request is executed for the
  raw equivalent of 1, the aggregate is worth 9 before and 9 after, and 0 is paid out, not 1. A
  position of raw collateral 1 with a request of 1, after the same fees, is worth 0: the request
  has passed and the call reverts with "Position has no collateral".
\<close>

theorem withdraw_passed_request_counterexample:
  "runOps demoConfig
     [(1, Create 1 11 1), (2, RequestWithdrawal 1 1), (3, ChargeFees 900000000000000000)]
     emptyLedger = Inr shrunkLedger
   \<and> withdrawalRequestPassTimestamp (positions shrunkLedger 1) = 12
   \<and> withdrawalRequestAmount (positions shrunkLedger 1) = 1
   \<and> getFeeAdjustedCollateral shrunkLedger (rawCollateral (positions shrunkLedger 1)) = Inr 9
   \<and> withdrawPassedRequest 12 1 shrunkLedger
       = Inr (shrunkLedgerAfter, 0, [CollateralTransfer 1 0])
   \<and> runOps demoConfig
     [(1, Create 1 1 1), (2, RequestWithdrawal 1 1), (3, ChargeFees 900000000000000000)]
     emptyLedger = Inr dustLedger
   \<and> withdrawalRequestPassTimestamp (positions dustLedger 1) = 12
   \<and> withdrawPassedRequest 12 1 dustLedger = Inl PositionHasNoCollateral"
  by (simp add: eval_defs shrunkLedger_def shrunkLedgerAfter_def dustLedger_def)

end
